theory Spec2Isabelle
  imports Main "HOL-Library.Word"
begin

unbundle bit_operations_syntax

section \<open>Basic types\<close>

type_synonym u8 = "8 word"
type_synonym u16 = "16 word"
type_synonym u32 = "32 word"
type_synonym u64 = "64 word"
type_synonym bytes = "8 word list"

text \<open>A HIT (\<open>hip_hit_t\<close>, a \<open>struct in6_addr\<close>) is 16 bytes; it is kept as the
  128-bit number those bytes spell in network order.\<close>

type_synonym hit = "128 word"

text \<open>Modelled from the spec: \<open>hip_hit_is_bigger\<close> lives in libcore and is not part of the
  sources at hand. The spec makes the order on HITs bytewise, strict and total, and calls the
  bigger HIT the numerically greater one. \<open>hip_hit_is_bigger a b\<close> holds when \<open>a\<close> is the
  greater HIT.\<close>

definition hip_hit_is_bigger :: "hit \<Rightarrow> hit \<Rightarrow> bool" where
  "hip_hit_is_bigger a b = (b < a)"

text \<open>errno values (Linux) used by the handlers.\<close>

definition ENOENT :: int where "ENOENT = 2"
definition ENXIO :: int where "ENXIO = 6"
definition ENOMEM :: int where "ENOMEM = 12"
definition EINVAL :: int where "EINVAL = 22"
definition ENOSYS :: int where "ENOSYS = 38"
definition ENOMSG :: int where "ENOMSG = 42"
definition ENODATA :: int where "ENODATA = 61"
definition EPROTO :: int where "EPROTO = 71"
definition EOPNOTSUPP :: int where "EOPNOTSUPP = 95"
definition ECANCELED :: int where "ECANCELED = 125"

definition HIP_AH_SHA_LEN :: nat where "HIP_AH_SHA_LEN = 20"

section \<open>HIP control messages (libhipl/input.c)\<close>

text \<open>A parsed control message. Parameters that \<open>hip_get_param\<close> may or may not find are
  options; multi-byte fields are kept in host order, so \<open>ntohs\<close> and \<open>ntohl\<close> do not
  appear. The header keeps the length the way the wire has it: in units of 8 bytes, minus one.\<close>

record hip_esp_info =
  old_spi :: u32
  new_spi :: u32
  keymat_index :: u16

record hip_solution =
  sol_K :: u8
  sol_I :: bytes
  sol_J :: bytes

record hip_dh_public_value =
  group_id :: u8
  pub_len :: u16
  public_value :: bytes

record hip_diffie_hellman =
  pub_val :: hip_dh_public_value
  pub_val2 :: "hip_dh_public_value option"

record hip_hmac =
  hmac_offset :: nat
  hmac_data :: bytes

record hip_host_id =
  hi_algorithm :: nat
  hi_key :: bytes
  hi_hostname :: bytes

text \<open>What a decrypted or cleartext TLV inside an I2 turns out to be: its type and, when it is
  a HOST_ID, the host identity that \<open>hip_build_host_id_from_param\<close> extracts (\<open>None\<close> when
  that conversion fails).\<close>

record hip_tlv =
  tlv_type :: u16
  tlv_host_id :: "hip_host_id option"

record hip_encrypted =
  enc_contents_len :: u16
  enc_data :: bytes

record hip_common =
  payload_len :: u8
  msg_version :: u8
  checksum :: u16
  control :: u16
  hit_sender :: hit
  hit_receiver :: hit
  p_esp_info :: "hip_esp_info option"
  p_r1_counter :: "u64 option"
  p_solution :: "hip_solution option"
  p_diffie_hellman :: "hip_diffie_hellman option"
  p_hip_transform :: "u16 list option"
  p_esp_transform :: "u16 list option"
  p_encrypted :: "hip_encrypted option"
  p_host_id :: "hip_tlv option"
  p_hmac :: "hip_hmac option"
  p_hmac2 :: "hip_hmac option"
  p_locator :: "bytes option"
  p_dh_group_list :: "u8 list option"

definition HIP_PARAM_HOST_ID :: u16 where "HIP_PARAM_HOST_ID = 705"

datatype hmac_param = HIP_PARAM_HMAC | HIP_PARAM_HMAC2

definition get_hmac_param :: "hip_common \<Rightarrow> hmac_param \<Rightarrow> hip_hmac option" where
  "get_hmac_param msg t = (case t of HIP_PARAM_HMAC \<Rightarrow> p_hmac msg | HIP_PARAM_HMAC2 \<Rightarrow> p_hmac2 msg)"

text \<open>Modelled from the spec: the header accessors of libcore/builder.c are not part of the
  sources at hand. The spec gives the header a length in 8-byte units minus one and a 16-bit
  checksum.\<close>

definition hip_get_msg_total_len :: "hip_common \<Rightarrow> u16" where
  "hip_get_msg_total_len msg = (ucast (payload_len msg) + 1) * 8"

definition hip_set_msg_total_len :: "hip_common \<Rightarrow> u16 \<Rightarrow> hip_common" where
  "hip_set_msg_total_len msg len = msg\<lparr>payload_len := ucast (drop_bit 3 len - 1)\<rparr>"

definition hip_get_msg_checksum :: "hip_common \<Rightarrow> u16" where
  "hip_get_msg_checksum msg = checksum msg"

definition hip_zero_msg_checksum :: "hip_common \<Rightarrow> hip_common" where
  "hip_zero_msg_checksum msg = msg\<lparr>checksum := 0\<rparr>"

definition hip_set_msg_checksum :: "hip_common \<Rightarrow> u16 \<Rightarrow> hip_common" where
  "hip_set_msg_checksum msg c = msg\<lparr>checksum := c\<rparr>"


section \<open>Host associations and the packet context\<close>

datatype hip_state =
  HIP_STATE_NONE | HIP_STATE_UNASSOCIATED | HIP_STATE_I1_SENT | HIP_STATE_I2_SENT
  | HIP_STATE_R2_SENT | HIP_STATE_ESTABLISHED | HIP_STATE_FAILED | HIP_STATE_CLOSING
  | HIP_STATE_CLOSED | HIP_STATE_R1_SENT | HIP_STATE_U1_SENT | HIP_STATE_U2_SENT

definition HIP_V1 :: int where "HIP_V1 = 1"
definition HIP_V2 :: int where "HIP_V2 = 2"

definition HIP_NAT_MODE_NONE :: int where "HIP_NAT_MODE_NONE = 0"
definition HIP_NAT_MODE_PLAIN_UDP :: int where "HIP_NAT_MODE_PLAIN_UDP = 1"

text \<open>The fields of \<open>struct hip_hadb_state\<close> (libcore/state.h) that the handlers below read or
  write. A \<open>struct hip_crypto_key\<close> is kept as the key bytes drawn into it.\<close>

record hip_hadb_state =
  hit_our :: hit
  hit_peer :: hit
  state :: hip_state
  peer_controls :: u16
  is_loopback :: int
  our_addr :: hit
  esp_transform :: int
  hip_transform :: int
  birthday :: u64
  dh_shared_key :: "bytes option"
  dh_shared_key_len :: int
  nat_mode :: int
  local_udp_port :: u16
  peer_udp_port :: u16
  hip_enc_out :: bytes
  hip_hmac_out :: bytes
  esp_out :: bytes
  auth_out :: bytes
  hip_enc_in :: bytes
  hip_hmac_in :: bytes
  esp_in :: bytes
  auth_in :: bytes
  current_keymat_index :: u16
  keymat_calc_index :: u8
  esp_keymat_index :: u16
  current_keymat_K :: "bytes option"
  our_pub :: "hip_host_id option"
  peer_pub :: "hip_host_id option"
  spi_outbound_old :: u32
  spi_outbound_new :: u32
  hip_version :: u8

record hip_portpair =
  src_port :: u16
  dst_port :: u16

record hip_packet_context =
  input_msg :: hip_common
  src_addr :: hit
  dst_addr :: hit
  msg_ports :: hip_portpair
  hadb_entry :: "hip_hadb_state option"
  error :: int

text \<open>Calls into the host association database (libhipl/hadb.c, not at hand) are recorded in
  the order in which a handler makes them.\<close>

datatype hadb_event =
  Del_peer_info_entry hip_hadb_state
  | Hadb_create_state
  | Hadb_insert_state hip_hadb_state

datatype evp_md = EVP_md5 | EVP_sha1

definition HIP_DIGEST_SHA1_HMAC :: int where "HIP_DIGEST_SHA1_HMAC = 3"
definition HIP_DIGEST_MD5_HMAC :: int where "HIP_DIGEST_MD5_HMAC = 4"

text \<open>Suite identifiers of libcore/protodefs.h (not at hand), with the values of RFC 5201 and
  RFC 5202.\<close>

definition HIP_HIP_RESERVED :: int where "HIP_HIP_RESERVED = 0"
definition HIP_HIP_AES_SHA1 :: int where "HIP_HIP_AES_SHA1 = 1"
definition HIP_HIP_3DES_SHA1 :: int where "HIP_HIP_3DES_SHA1 = 2"
definition HIP_HIP_3DES_MD5 :: int where "HIP_HIP_3DES_MD5 = 3"
definition HIP_HIP_BLOWFISH_SHA1 :: int where "HIP_HIP_BLOWFISH_SHA1 = 4"
definition HIP_HIP_NULL_SHA1 :: int where "HIP_HIP_NULL_SHA1 = 5"
definition HIP_HIP_NULL_MD5 :: int where "HIP_HIP_NULL_MD5 = 6"

definition HIP_ESP_AES_SHA1 :: int where "HIP_ESP_AES_SHA1 = 1"
definition HIP_ESP_3DES_SHA1 :: int where "HIP_ESP_3DES_SHA1 = 2"
definition HIP_ESP_3DES_MD5 :: int where "HIP_ESP_3DES_MD5 = 3"
definition HIP_ESP_BLOWFISH_SHA1 :: int where "HIP_ESP_BLOWFISH_SHA1 = 4"
definition HIP_ESP_NULL_SHA1 :: int where "HIP_ESP_NULL_SHA1 = 5"
definition HIP_ESP_NULL_MD5 :: int where "HIP_ESP_NULL_MD5 = 6"

text \<open>The functions that the handlers call but whose code is elsewhere (OpenSSL, the HADB, the
  HIDB, the builder, the cookie and keymat modules) are parameters: one record of them is
  passed to every handler. \<open>out_of_memory\<close> decides whether the allocations of a call
  fail. The two ESP-protection anchor handlers (libhipl/esp_prot_hipd_msg.c) write only the
  \<open>esp_prot\<close> fields of a host association, which the record above leaves out, so only
  their result is kept.\<close>

record externals =
  HMAC :: "evp_md \<Rightarrow> bytes \<Rightarrow> nat \<Rightarrow> bytes \<Rightarrow> bytes"
  sha1 :: "bytes \<Rightarrow> bytes"
  wire :: "hip_common \<Rightarrow> bytes"
  out_of_memory :: bool
  hip_hmac_key_length :: "int \<Rightarrow> nat"
  hip_transform_key_length :: "int \<Rightarrow> nat"
  hip_enc_key_length :: "int \<Rightarrow> nat"
  hip_auth_key_length_esp :: "int \<Rightarrow> nat"
  hip_select_hip_transform :: "u16 list \<Rightarrow> int"
  hip_select_esp_transform :: "u16 list \<Rightarrow> int"
  hip_get_param_transform_suite_id :: "u16 list \<Rightarrow> int"
  hip_dh_select_key :: "hip_diffie_hellman \<Rightarrow> hip_dh_public_value"
  hip_calculate_shared_secret :: "u8 \<Rightarrow> bytes \<Rightarrow> u16 \<Rightarrow> int \<times> bytes"
  hip_hidb_hit_is_our :: "hit \<Rightarrow> bool"
  hip_controls_sane :: "u16 \<Rightarrow> u16 \<Rightarrow> bool"
  relay_full_record :: "hit \<Rightarrow> bool"
  hip_del_peer_info_entry :: "hip_hadb_state \<Rightarrow> int"
  hip_hadb_create_state :: "hip_hadb_state"
  hip_init_us :: "hip_hadb_state \<Rightarrow> hit \<Rightarrow> hip_hadb_state"
  hip_init_peer :: "hip_host_id \<Rightarrow> int"
  hip_verify_cookie :: "hit \<Rightarrow> hit \<Rightarrow> hip_common \<Rightarrow> hip_solution \<Rightarrow> int \<Rightarrow> int \<Rightarrow> int"
  hip_crypto_encrypted :: "hip_encrypted \<Rightarrow> int \<Rightarrow> u16 \<Rightarrow> bytes \<Rightarrow> int \<times> hip_tlv"
  verify_signature :: "hip_host_id \<Rightarrow> hip_common \<Rightarrow> int"
  hip_devaddr2ifindex :: "hit \<Rightarrow> int"
  hip_hadb_add_peer_addr :: "hip_hadb_state \<Rightarrow> hit \<Rightarrow> int"
  esp_prot_i2_handle_anchor :: "hip_packet_context \<Rightarrow> int"
  esp_prot_r2_handle_anchor :: "hip_hadb_state \<Rightarrow> hip_common \<Rightarrow> int"
  hip_get_local_nat_udp_port :: u16
  hip_handle_registration :: "hip_hadb_state \<Rightarrow> hip_common \<Rightarrow> hip_hadb_state"

subsection \<open>I2 received in state I2-SENT\<close>

text \<open>\<open>hip_handle_i2_in_i2_sent\<close>: sets the error flag when the peer's HIT is the bigger one
  and returns the flag. The handler is registered for a state in which a host association
  exists; without one the C code dereferences a null pointer, which is \<open>None\<close> here.\<close>

definition hip_handle_i2_in_i2_sent :: "hip_packet_context \<Rightarrow> (int \<times> hip_packet_context) option" where
  "hip_handle_i2_in_i2_sent ctx =
     (case hadb_entry ctx of
        None \<Rightarrow> None
      | Some ha \<Rightarrow>
          let ctx' = (if hip_hit_is_bigger (hit_peer ha) (hit_our ha) then ctx\<lparr>error := 1\<rparr> else ctx)
          in Some (error ctx', ctx'))"

subsection \<open>HMAC verification\<close>

text \<open>\<open>hip_write_hmac\<close> (libcore/crypto.c): 0 and the digest for the two known types, 1
  otherwise.\<close>

definition hip_write_hmac :: "externals \<Rightarrow> int \<Rightarrow> bytes \<Rightarrow> bytes \<Rightarrow> int \<times> bytes" where
  "hip_write_hmac ext type key data =
     (if type = HIP_DIGEST_SHA1_HMAC
      then (0, HMAC ext EVP_sha1 key (hip_hmac_key_length ext HIP_ESP_AES_SHA1) data)
      else if type = HIP_DIGEST_MD5_HMAC
      then (0, HMAC ext EVP_md5 key (hip_hmac_key_length ext HIP_ESP_3DES_MD5) data)
      else (1, []))"

definition verify_hmac :: "externals \<Rightarrow> hip_common \<Rightarrow> u16 \<Rightarrow> bytes \<Rightarrow> bytes \<Rightarrow> int \<Rightarrow> int" where
  "verify_hmac ext buffer buf_len hmac hmac_key hmac_type =
     (case hip_write_hmac ext hmac_type hmac_key (take (unat buf_len) (wire ext buffer)) of
        (rc, hmac_res) \<Rightarrow>
          if rc \<noteq> 0 then - EINVAL
          else if take HIP_AH_SHA_LEN hmac_res \<noteq> take HIP_AH_SHA_LEN hmac then - EINVAL
          else 0)"

text \<open>\<open>hip_verify_packet_hmac_general\<close>. The original checksum is saved in a \<open>uint8_t\<close>
  local, the original length in an \<open>int\<close>. The function returns its result together with
  the message buffer as it leaves it.\<close>

definition hip_verify_packet_hmac_general ::
    "externals \<Rightarrow> hip_common \<Rightarrow> bytes \<Rightarrow> hmac_param \<Rightarrow> int \<times> hip_common" where
  "hip_verify_packet_hmac_general ext msg crypto_key parameter_type =
     (case get_hmac_param msg parameter_type of
        None \<Rightarrow> (- ENOMSG, msg)
      | Some hmac \<Rightarrow>
          let orig_len = uint (hip_get_msg_total_len msg);
              orig_checksum = (ucast (hip_get_msg_checksum msg) :: u8);
              msg1 = hip_zero_msg_checksum msg;
              len = int (hmac_offset hmac);
              msg2 = hip_set_msg_total_len msg1 (word_of_int len);
              tmpkey = crypto_key
          in if verify_hmac ext msg2 (hip_get_msg_total_len msg2) (hmac_data hmac) tmpkey
                  HIP_DIGEST_SHA1_HMAC \<noteq> 0
             then (- 1, msg2)
             else (0, hip_set_msg_checksum (hip_set_msg_total_len msg2 (word_of_int orig_len))
                        (ucast orig_checksum)))"

definition hip_verify_packet_hmac :: "externals \<Rightarrow> hip_common \<Rightarrow> bytes \<Rightarrow> int \<times> hip_common" where
  "hip_verify_packet_hmac ext msg crypto_key =
     hip_verify_packet_hmac_general ext msg crypto_key HIP_PARAM_HMAC"

subsection \<open>Diffie-Hellman group lists\<close>

text \<open>Group identifiers as they index the prime tables of libcore/crypto.c.\<close>

definition HIP_DH_OAKLEY_5 :: u8 where "HIP_DH_OAKLEY_5 = 3"
definition HIP_DH_OAKLEY_15 :: u8 where "HIP_DH_OAKLEY_15 = 4"
definition HIP_DH_NIST_P_384 :: u8 where "HIP_DH_NIST_P_384 = 8"

definition HIP_DH_GROUP_LIST :: "u8 list" where
  "HIP_DH_GROUP_LIST = [HIP_DH_NIST_P_384, HIP_DH_OAKLEY_15, HIP_DH_OAKLEY_5]"

definition HIP_DH_GROUP_LIST_SIZE :: nat where "HIP_DH_GROUP_LIST_SIZE = 3"

text \<open>\<open>dhprime_len\<close> and \<open>hip_get_dh_size\<close> (libcore/crypto.c). The table has eleven entries;
  the bound check of the source lets index 11 through, which reads past the table and is
  \<open>None\<close> here.\<close>

definition dhprime_len :: "int list" where
  "dhprime_len = [- 1, 48, 96, 192, 384, 768, 1024, 64, 96, 132, 0]"

definition hip_get_dh_size :: "u8 \<Rightarrow> u16 option" where
  "hip_get_dh_size t =
     (if t = 0 then Some 0
      else if unat t > length dhprime_len then Some 0
      else if unat t = length dhprime_len then None
      else Some (word_of_int (dhprime_len ! unat t)))"

text \<open>The two loops of \<open>check_dh_downgrade_v2\<close>: the outer one walks our own preference list,
  the inner one the list received from the peer. The first pair that agrees decides.\<close>

fun dh_scan_peer :: "u8 \<Rightarrow> u8 list \<Rightarrow> u8 \<Rightarrow> int option" where
  "dh_scan_peer ours [] peer_group = None"
| "dh_scan_peer ours (l # ls) peer_group =
     (if ours = l then (if l = peer_group then Some 0 else Some (- 1))
      else dh_scan_peer ours ls peer_group)"

fun dh_scan_ours :: "u8 list \<Rightarrow> u8 list \<Rightarrow> u8 \<Rightarrow> int" where
  "dh_scan_ours [] list peer_group = - 1"
| "dh_scan_ours (g # gs) list peer_group =
     (case dh_scan_peer g list peer_group of
        Some r \<Rightarrow> r
      | None \<Rightarrow> dh_scan_ours gs list peer_group)"

text \<open>\<open>check_dh_downgrade_v2\<close>. \<open>HIP_DH_GROUP_MAX_RECV_SIZE\<close>, the capacity of the local copy
  of the peer's list, is defined in a header that is not at hand and is the parameter
  \<open>max_recv\<close>; \<open>hip_get_list_from_param\<close> copies at most that many entries.\<close>

definition check_dh_downgrade_v2 :: "nat \<Rightarrow> u8 \<Rightarrow> u8 list \<Rightarrow> int" where
  "check_dh_downgrade_v2 max_recv peer_group peer_param =
     dh_scan_ours HIP_DH_GROUP_LIST (take max_recv peer_param) peer_group"

text \<open>The HIPv2 block of \<open>hip_check_r1\<close>: the only caller of \<open>check_dh_downgrade_v2\<close>. It
  runs on the initiator, on the R1 it received; 0 lets the handler go on.\<close>

definition hip_check_r1_dh_group :: "nat \<Rightarrow> hip_hadb_state \<Rightarrow> hip_common \<Rightarrow> int" where
  "hip_check_r1_dh_group max_recv ha msg =
     (if uint (hip_version ha) = HIP_V2 then
        (case p_dh_group_list msg of
           None \<Rightarrow> - ENOENT
         | Some dh_list_param \<Rightarrow>
             (case p_diffie_hellman msg of
                None \<Rightarrow> - ENOENT
              | Some dh_param \<Rightarrow>
                  if check_dh_downgrade_v2 max_recv (group_id (pub_val dh_param)) dh_list_param < 0
                  then - EINVAL else 0))
      else 0)"


subsection \<open>Keying material\<close>

definition hit_bytes :: "hit \<Rightarrow> bytes" where
  "hit_bytes h = map (\<lambda>i. ucast (drop_bit (8 * (15 - i)) h)) [0..<16]"

record hip_keymat_keymat =
  km_offset :: nat
  keymatlen :: nat
  keymatdst :: bytes

text \<open>Modelled from the spec: \<open>hip_make_keymat\<close> (libhipl/keymat.c) is not part of the
  sources at hand. The spec has the keymat as the concatenation of the blocks
  K_n = SHA1(key-material, sort(HIT_i, HIT_r), I, J, n), n counting from 1; sorting puts the
  smaller HIT first. The result is cut to the length of the destination buffer.\<close>

definition keymat_block :: "externals \<Rightarrow> bytes \<Rightarrow> hit \<Rightarrow> hit \<Rightarrow> bytes \<Rightarrow> bytes \<Rightarrow> nat \<Rightarrow> bytes" where
  "keymat_block ext kij hit1 hit2 I J n =
     (let lo = (if hip_hit_is_bigger hit1 hit2 then hit2 else hit1);
          hi = (if hip_hit_is_bigger hit1 hit2 then hit1 else hit2)
      in sha1 ext (kij @ hit_bytes lo @ hit_bytes hi @ I @ J @ [of_nat n]))"

definition hip_make_keymat ::
    "externals \<Rightarrow> bytes \<Rightarrow> nat \<Rightarrow> nat \<Rightarrow> hit \<Rightarrow> hit \<Rightarrow> bytes \<Rightarrow> bytes \<Rightarrow> hip_keymat_keymat" where
  "hip_make_keymat ext kij kij_len dstbuflen hit1 hit2 I J =
     \<lparr>km_offset = 0, keymatlen = dstbuflen,
      keymatdst = take dstbuflen
        (concat (map (keymat_block ext (take kij_len kij) hit1 hit2 I J)
                     [1..<Suc ((dstbuflen + HIP_AH_SHA_LEN - 1) div HIP_AH_SHA_LEN)]))\<rparr>"

text \<open>Modelled from the spec: \<open>hip_keymat_draw_and_copy\<close> (libhipl/keymat.c) is not part of
  the sources at hand. Keys are drawn contiguously: a draw hands out the next \<open>len\<close> bytes of
  the keymat and moves the cursor past them.\<close>

definition hip_keymat_draw_and_copy :: "hip_keymat_keymat \<Rightarrow> nat \<Rightarrow> bytes \<times> hip_keymat_keymat" where
  "hip_keymat_draw_and_copy km len =
     (take len (drop (km_offset km) (keymatdst km)), km\<lparr>km_offset := km_offset km + len\<rparr>)"

text \<open>The two branches of \<open>produce_keying_material\<close> that draw the eight keys: eight draws in
  program order, each stored into the field the branch names.\<close>

definition draw_keys :: "bool \<Rightarrow> hip_keymat_keymat \<Rightarrow> nat \<Rightarrow> nat \<Rightarrow> nat \<Rightarrow> nat \<Rightarrow>
    hip_hadb_state \<Rightarrow> hip_hadb_state" where
  "draw_keys we_are_HITg km0 hip_transf_length hmac_transf_length esp_transf_length
       auth_transf_length ha =
     (case hip_keymat_draw_and_copy km0 hip_transf_length of (k1, km1) \<Rightarrow>
      case hip_keymat_draw_and_copy km1 hmac_transf_length of (k2, km2) \<Rightarrow>
      case hip_keymat_draw_and_copy km2 hip_transf_length of (k3, km3) \<Rightarrow>
      case hip_keymat_draw_and_copy km3 hmac_transf_length of (k4, km4) \<Rightarrow>
      case hip_keymat_draw_and_copy km4 esp_transf_length of (k5, km5) \<Rightarrow>
      case hip_keymat_draw_and_copy km5 auth_transf_length of (k6, km6) \<Rightarrow>
      case hip_keymat_draw_and_copy km6 esp_transf_length of (k7, km7) \<Rightarrow>
      case hip_keymat_draw_and_copy km7 auth_transf_length of (k8, km8) \<Rightarrow>
        if we_are_HITg then
          ha\<lparr>hip_enc_out := k1, hip_hmac_out := k2, hip_enc_in := k3, hip_hmac_in := k4,
             esp_out := k5, auth_out := k6, esp_in := k7, auth_in := k8\<rparr>
        else
          ha\<lparr>hip_enc_in := k1, hip_hmac_in := k2, hip_enc_out := k3, hip_hmac_out := k4,
             esp_in := k5, auth_in := k6, esp_out := k7, auth_out := k8\<rparr>)"

text \<open>The keymat is allocated in whole SHA-1 blocks.\<close>

definition round_up_sha :: "nat \<Rightarrow> nat" where
  "round_up_sha keymat_len =
     (if keymat_len mod HIP_AH_SHA_LEN \<noteq> 0
      then keymat_len + (HIP_AH_SHA_LEN - keymat_len mod HIP_AH_SHA_LEN)
      else keymat_len)"

text \<open>The bytes of a keymat from \<open>off\<close> bytes behind its cursor, \<open>len\<close> of them.\<close>

definition keymat_slice :: "hip_keymat_keymat \<Rightarrow> nat \<Rightarrow> nat \<Rightarrow> bytes" where
  "keymat_slice km off len = take len (drop (km_offset km + off) (keymatdst km))"

text \<open>\<open>produce_keying_material\<close>, on the host association that \<open>ctx->hadb_entry\<close> points to
  and the message \<open>ctx->input_msg\<close>. Every error exit is taken before the first write to the
  host association. The last copy, into \<open>current_keymat_K\<close>, reads 20 bytes at block
  \<open>keymat_calc_index - 1\<close> of the keymat; when that block lies past the allocated keymat the
  C code reads foreign memory, which is \<open>None\<close> here.\<close>

definition produce_keying_material ::
    "externals \<Rightarrow> hip_common \<Rightarrow> hip_hadb_state \<Rightarrow> bytes \<Rightarrow> bytes \<Rightarrow> int \<times> hip_hadb_state" where
  "produce_keying_material ext msg ha I J =
     (case p_hip_transform msg of
        None \<Rightarrow> (- EINVAL, ha)
      | Some hip_param \<Rightarrow>
     (let hip_tfm = hip_select_hip_transform ext hip_param in
      if hip_tfm = 0 then (- EINVAL, ha) else
     (case p_esp_transform msg of
        None \<Rightarrow> (- EINVAL, ha)
      | Some esp_param \<Rightarrow>
     (let esp_tfm = hip_select_esp_transform ext esp_param in
      if esp_tfm = 0 then (- EINVAL, ha) else
     (let hip_transf_length = hip_transform_key_length ext hip_tfm;
          hmac_transf_length = hip_hmac_key_length ext esp_tfm;
          esp_transf_length = hip_enc_key_length ext esp_tfm;
          auth_transf_length = hip_auth_key_length_esp ext esp_tfm;
          keymat_len_min = hip_transf_length + hmac_transf_length + hip_transf_length
                           + hmac_transf_length + esp_transf_length + auth_transf_length
                           + esp_transf_length + auth_transf_length;
          esp_default_keymat_index = (of_nat (hip_transf_length + hmac_transf_length
                                              + hip_transf_length + hmac_transf_length) :: u16);
          esp_keymat_index' = (case p_esp_info msg of
                                 Some esp_info \<Rightarrow> keymat_index esp_info
                               | None \<Rightarrow> esp_default_keymat_index)
      in
      if esp_keymat_index' \<noteq> esp_default_keymat_index then (- 1, ha) else
     (let keymat_len = round_up_sha keymat_len_min
      in
      if out_of_memory ext then (- ENOMEM, ha) else
     (case p_diffie_hellman msg of
        None \<Rightarrow> (- ENOENT, ha)
      | Some dhf \<Rightarrow>
     (let dhpv = hip_dh_select_key ext dhf;
          secret = hip_calculate_shared_secret ext (group_id dhpv) (public_value dhpv) (pub_len dhpv);
          dh_shared_len = fst secret;
          dh_shared_key' = snd secret
      in
      if dh_shared_len \<le> 0 then (- EINVAL, ha) else
     (let km = hip_make_keymat ext dh_shared_key' (nat dh_shared_len) keymat_len
                 (hit_sender msg) (hit_receiver msg) I J;
          we_are_HITg = hip_hit_is_bigger (hit_receiver msg) (hit_sender msg);
          ha1 = draw_keys we_are_HITg km hip_transf_length hmac_transf_length esp_transf_length
                  auth_transf_length ha;
          cki = (of_nat keymat_len_min :: u16);
          kci = (of_nat (unat cki div HIP_AH_SHA_LEN + 1) :: u8);
          koff = (unat kci - 1) * HIP_AH_SHA_LEN
      in (0, ha1\<lparr>current_keymat_index := cki,
                 keymat_calc_index := kci,
                 esp_keymat_index := esp_keymat_index',
                 current_keymat_K := (if 0 < unat kci \<and> koff + HIP_AH_SHA_LEN \<le> keymat_len
                                      then Some (take HIP_AH_SHA_LEN (drop koff (keymatdst km)))
                                      else None),
                 dh_shared_key := Some dh_shared_key',
                 dh_shared_key_len := dh_shared_len\<rparr>))))))))))"


subsection \<open>Checking and handling an I2\<close>

definition HIP_PACKET_CTRL_ANON :: u16 where "HIP_PACKET_CTRL_ANON = 1"

text \<open>\<open>i2_is_retransmission\<close>, on the host association that \<open>ctx->hadb_entry\<close> points to.\<close>

definition i2_is_retransmission :: "hip_common \<Rightarrow> hip_hadb_state \<Rightarrow> bool" where
  "i2_is_retransmission msg ha =
     (case p_esp_info msg of
        None \<Rightarrow> False
      | Some esp_info \<Rightarrow>
          spi_outbound_new ha = new_spi esp_info \<and> esp_keymat_index ha = keymat_index esp_info)"

text \<open>First part of \<open>hip_check_i2\<close>: either the existing host association is kept (a
  retransmitted I2) or it is deleted and a fresh one is created, initialised and inserted. The
  result is the error code (0 to go on), the context, the local \<open>hip_version\<close>, the flag
  \<open>skip_key_creation\<close> and the HADB calls made.\<close>

definition hip_check_i2_init ::
    "externals \<Rightarrow> hip_packet_context \<Rightarrow> int \<times> hip_packet_context \<times> int \<times> bool \<times> hadb_event list" where
  "hip_check_i2_init ext ctx =
     (if (case hadb_entry ctx of Some ha \<Rightarrow> i2_is_retransmission (input_msg ctx) ha | None \<Rightarrow> False)
      then (0, ctx, 0, True, [])
      else
        (let hip_version0 = (case hadb_entry ctx of Some ha \<Rightarrow> uint (hip_version ha) | None \<Rightarrow> 0);
             del_evs = (case hadb_entry ctx of Some ha \<Rightarrow> [Del_peer_info_entry ha] | None \<Rightarrow> [])
         in if (case hadb_entry ctx of Some ha \<Rightarrow> hip_del_peer_info_entry ext ha \<noteq> 0 | None \<Rightarrow> False)
            then (- 1, ctx, hip_version0, False, del_evs)
            else if out_of_memory ext
            then (- ENOMEM, ctx\<lparr>hadb_entry := None\<rparr>, hip_version0, False,
                  del_evs @ [Hadb_create_state])
            else
              (let hv = (if hip_version0 = 0 then uint (msg_version (input_msg ctx)) else hip_version0);
                   ha1 = (hip_hadb_create_state ext)
                           \<lparr>hip_version := word_of_int hv,
                            hit_peer := hit_sender (input_msg ctx),
                            our_addr := dst_addr ctx\<rparr>;
                   ha2 = hip_init_us ext ha1 (hit_receiver (input_msg ctx))
               in (0, ctx\<lparr>hadb_entry := Some ha2\<rparr>, hv, False,
                   del_evs @ [Hadb_create_state, Hadb_insert_state ha2]))))"

text \<open>The validation of the DIFFIE_HELLMAN parameter in \<open>hip_check_i2\<close>: the group must be
  one of our own list and the public value must have that group's length.\<close>

definition hip_check_i2_dh :: "hip_diffie_hellman \<Rightarrow> int" where
  "hip_check_i2_dh dh_param =
     (let dh_group_id = group_id (pub_val dh_param) in
      if \<not> list_ex (\<lambda>g. uint dh_group_id = uint g) HIP_DH_GROUP_LIST then - EINVAL
      else if hip_get_dh_size dh_group_id \<noteq> Some (pub_len (pub_val dh_param)) then - EINVAL
      else 0)"

text \<open>The ENCRYPTED parameter of an I2: where the host identity starts and how long the
  ciphertext is depends on the HIP transform. The result is an error code or the length.\<close>

definition hip_check_i2_crypto_len :: "int \<Rightarrow> hip_encrypted \<Rightarrow> int + u16" where
  "hip_check_i2_crypto_len tfm enc =
     (if tfm = HIP_HIP_RESERVED then Inl (- EOPNOTSUPP)
      else if tfm = HIP_HIP_AES_SHA1 then Inr (enc_contents_len enc - 4 - 16)
      else if tfm = HIP_HIP_3DES_SHA1 then Inr (enc_contents_len enc - 4 - 8)
      else if tfm = HIP_HIP_3DES_MD5 then Inl (- ENOSYS)
      else if tfm = HIP_HIP_BLOWFISH_SHA1 then Inl (- ENOSYS)
      else if tfm = HIP_HIP_NULL_SHA1 then Inr (enc_contents_len enc - 4)
      else if tfm = HIP_HIP_NULL_MD5 then Inl (- ENOSYS)
      else Inl (- EOPNOTSUPP))"

text \<open>Finding the initiator's host identity: in the clear, or by decrypting the ENCRYPTED
  parameter with the inbound (on loopback: outbound) HIP encryption key.\<close>

definition hip_check_i2_host_id ::
    "externals \<Rightarrow> hip_common \<Rightarrow> hip_hadb_state \<Rightarrow> int \<Rightarrow> int + hip_tlv" where
  "hip_check_i2_host_id ext msg ha is_loopback' =
     (case p_encrypted msg of
        None \<Rightarrow> (case p_host_id msg of None \<Rightarrow> Inl (- 1) | Some h \<Rightarrow> Inr h)
      | Some enc \<Rightarrow>
          if out_of_memory ext then Inl (- ENOMEM)
          else
            (case hip_check_i2_crypto_len (hip_transform ha) enc of
               Inl e \<Rightarrow> Inl e
             | Inr crypto_len \<Rightarrow>
                 (let r = hip_crypto_encrypted ext enc (hip_transform ha) crypto_len
                            (if is_loopback' \<noteq> 0 then hip_enc_out ha else hip_enc_in ha)
                  in if fst r \<noteq> 0 then Inl (- 1)
                     else if tlv_type (snd r) \<noteq> HIP_PARAM_HOST_ID then Inl (- EPROTO)
                     else Inr (snd r))))"

text \<open>Last part of \<open>hip_check_i2\<close>, from the HMAC check on. The HMAC check leaves its
  changes in the message buffer.\<close>

definition hip_check_i2_auth ::
    "externals \<Rightarrow> hip_packet_context \<Rightarrow> hip_hadb_state \<Rightarrow> int \<times> hip_packet_context" where
  "hip_check_i2_auth ext ctx ha =
     (let msg = input_msg ctx;
          is_loopback' = (if hip_hidb_hit_is_our ext (hit_sender msg)
                             \<and> hip_hidb_hit_is_our ext (hit_receiver msg) then 1 else 0 :: int);
          ha1 = (if is_loopback' \<noteq> 0 then ha\<lparr>is_loopback := 1\<rparr> else ha);
          hm = hip_verify_packet_hmac ext msg
                 (if is_loopback' \<noteq> 0 then hip_hmac_out ha1 else hip_hmac_in ha1);
          ctx1 = ctx\<lparr>input_msg := snd hm, hadb_entry := Some ha1\<rparr>
      in
      if fst hm \<noteq> 0 then (- EPROTO, ctx1) else
     (case p_hip_transform (input_msg ctx1) of
        None \<Rightarrow> (- ENODATA, ctx1)
      | Some hip_transform' \<Rightarrow>
     (let ha2 = ha1\<lparr>hip_transform := hip_get_param_transform_suite_id ext hip_transform'\<rparr>;
          ctx2 = ctx1\<lparr>hadb_entry := Some ha2\<rparr>
      in
      if hip_transform ha2 = 0 then (- EPROTO, ctx2) else
     (case hip_check_i2_host_id ext (input_msg ctx2) ha2 is_loopback' of
        Inl e \<Rightarrow> (e, ctx2)
      | Inr host_id_in_enc \<Rightarrow>
     (case tlv_host_id host_id_in_enc of
        None \<Rightarrow> (- 1, ctx2)
      | Some host_id \<Rightarrow>
          if hip_init_peer ext host_id \<noteq> 0 then (- EINVAL, ctx2) else
     (let ha3 = ha2\<lparr>peer_pub := Some host_id\<rparr>;
          ctx3 = ctx2\<lparr>hadb_entry := Some ha3\<rparr>
      in
      if verify_signature ext host_id (input_msg ctx3) \<noteq> 0 then (- EINVAL, ctx3) else
     (case p_r1_counter (input_msg ctx3) of
        None \<Rightarrow> (0, ctx3)
      | Some generation \<Rightarrow> (0, ctx3\<lparr>hadb_entry := Some (ha3\<lparr>birthday := generation\<rparr>)\<rparr>))))))))"

text \<open>\<open>hip_check_i2\<close>. The result is the return value, the context as the handler leaves it
  and the HADB calls it made. Exits through \<open>out_err\<close> copy the error into \<open>ctx->error\<close>,
  the two early \<open>return -1\<close> do not. After a first part without error the context holds
  a host association, so the branch for a missing one is never taken.\<close>

definition out_err :: "int \<Rightarrow> hip_packet_context \<Rightarrow> int \<times> hip_packet_context" where
  "out_err err ctx = (err, if err \<noteq> 0 then ctx\<lparr>error := err\<rparr> else ctx)"

definition hip_check_i2 ::
    "externals \<Rightarrow> hip_packet_context \<Rightarrow> int \<times> hip_packet_context \<times> hadb_event list" where
  "hip_check_i2 ext ctx =
     (let msg = input_msg ctx in
      if \<not> hip_hidb_hit_is_our ext (hit_receiver msg) \<and> relay_full_record ext (hit_receiver msg)
      then (case out_err (- ECANCELED) ctx of (e, c) \<Rightarrow> (e, c, []))
      else if \<not> hip_hidb_hit_is_our ext (hit_receiver msg) then (- 1, ctx, [])
      else if \<not> hip_controls_sane ext (control msg) HIP_PACKET_CTRL_ANON then (- 1, ctx, [])
      else
     (case hip_check_i2_init ext ctx of (e0, ctx0, hip_version', skip_key_creation, evs) \<Rightarrow>
      if e0 \<noteq> 0 then (case out_err e0 ctx0 of (e, c) \<Rightarrow> (e, c, evs)) else
     (case hadb_entry ctx0 of
        None \<Rightarrow> (case out_err (- ENOMEM) ctx0 of (e, c) \<Rightarrow> (e, c, evs))
      | Some ha0 \<Rightarrow>
     (case p_solution msg of
        None \<Rightarrow> (case out_err (- ENODATA) ctx0 of (e, c) \<Rightarrow> (e, c, evs))
      | Some solution \<Rightarrow>
     (case p_diffie_hellman msg of
        None \<Rightarrow> (- ENODATA, ctx0\<lparr>error := - ENODATA\<rparr>, evs)
      | Some dh_param \<Rightarrow>
      if hip_check_i2_dh dh_param \<noteq> 0 then (- EINVAL, ctx0\<lparr>error := - EINVAL\<rparr>, evs) else
     (let dh_group_id = (if hip_version' = HIP_V1 then 0 else uint (group_id (pub_val dh_param))) in
      if hip_verify_cookie ext (src_addr ctx0) (dst_addr ctx0) msg solution hip_version' dh_group_id \<noteq> 0
      then (case out_err (- EPROTO) ctx0 of (e, c) \<Rightarrow> (e, c, evs)) else
     (let km = (if skip_key_creation then (0, ha0)
                else produce_keying_material ext msg ha0 (sol_I solution) (sol_J solution))
      in
      if fst km \<noteq> 0
      then (case out_err (- EPROTO) (ctx0\<lparr>hadb_entry := Some (snd km)\<rparr>) of (e, c) \<Rightarrow> (e, c, evs))
      else
     (case hip_check_i2_auth ext ctx0 (snd km) of (e1, ctx1) \<Rightarrow>
      (case out_err e1 ctx1 of (e, c) \<Rightarrow> (e, c, evs))))))))))"

text \<open>\<open>hip_handle_i2\<close>: records the peer's SPIs and the ESP transform and, when nothing fails,
  moves the host association to ESTABLISHED. \<open>None\<close> stands for the null dereference when
  there is no host association.\<close>

definition hip_handle_i2 :: "externals \<Rightarrow> hip_packet_context \<Rightarrow> (int \<times> hip_packet_context) option" where
  "hip_handle_i2 ext ctx =
     (case hadb_entry ctx of
        None \<Rightarrow> None
      | Some ha \<Rightarrow>
      if hip_devaddr2ifindex ext (our_addr ha) < 0 then Some (out_err (- ENXIO) ctx) else
     (let msg = input_msg ctx;
          ha1 = (if our_pub ha = None then hip_init_us ext ha (hit_receiver msg) else ha);
          ha2 = (if dst_port (msg_ports ctx) \<noteq> 0
                 then ha1\<lparr>nat_mode := (if nat_mode ha1 = 0 then HIP_NAT_MODE_PLAIN_UDP else nat_mode ha1),
                          local_udp_port := dst_port (msg_ports ctx),
                          peer_udp_port := src_port (msg_ports ctx)\<rparr>
                 else ha1)
      in
     (case p_esp_info msg of
        None \<Rightarrow> Some (out_err (- EINVAL) (ctx\<lparr>hadb_entry := Some ha2\<rparr>))
      | Some esp_info \<Rightarrow>
     (let ha3 = ha2\<lparr>spi_outbound_old := old_spi esp_info,
                     spi_outbound_new := new_spi esp_info,
                     peer_controls := peer_controls ha2 OR control msg\<rparr>;
          ctx3 = ctx\<lparr>hadb_entry := Some ha3\<rparr>
      in
      if hip_hadb_add_peer_addr ext ha3 (src_addr ctx) \<noteq> 0 then Some (out_err (- 1) ctx3) else
     (case p_esp_transform msg of
        None \<Rightarrow> Some (out_err (- ENOENT) ctx3)
      | Some esp_tfm \<Rightarrow>
     (let ha4 = ha3\<lparr>esp_transform := hip_select_esp_transform ext esp_tfm\<rparr>;
          ctx4 = ctx\<lparr>hadb_entry := Some ha4\<rparr>
      in
      if esp_transform ha4 = 0 then Some (out_err (- 1) ctx4)
      else if esp_prot_i2_handle_anchor ext ctx4 \<noteq> 0 then Some (out_err (- 1) ctx4)
      else Some (0, ctx\<lparr>hadb_entry := Some (ha4\<lparr>state := HIP_STATE_ESTABLISHED\<rparr>)\<rparr>)))))))"

text \<open>\<open>hip_handle_r2\<close>: on success the host association is ESTABLISHED and (re)inserted into
  the database.\<close>

definition hip_handle_r2 ::
    "externals \<Rightarrow> hip_packet_context \<Rightarrow> (int \<times> hip_packet_context \<times> hadb_event list) option" where
  "hip_handle_r2 ext ctx =
     (case hadb_entry ctx of
        None \<Rightarrow> None
      | Some ha \<Rightarrow>
     (let msg = input_msg ctx;
          ha1 = (if dst_port (msg_ports ctx) = hip_get_local_nat_udp_port ext
                 then ha\<lparr>local_udp_port := dst_port (msg_ports ctx),
                         peer_udp_port := src_port (msg_ports ctx)\<rparr>
                 else ha)
      in
     (case p_esp_info msg of
        None \<Rightarrow> Some (- EINVAL, ctx\<lparr>hadb_entry := Some ha1\<rparr>, [])
      | Some esp_info \<Rightarrow>
     (let ha2 = ha1\<lparr>spi_outbound_old := old_spi esp_info, spi_outbound_new := new_spi esp_info\<rparr> in
      if esp_prot_r2_handle_anchor ext ha2 msg \<noteq> 0
      then Some (- 1, ctx\<lparr>hadb_entry := Some ha2\<rparr>, [])
      else
     (let ha3 = (hip_handle_registration ext ha2 msg)\<lparr>state := HIP_STATE_ESTABLISHED\<rparr>
      in Some (0, ctx\<lparr>hadb_entry := Some ha3\<rparr>, [Hadb_insert_state ha3]))))))"


section \<open>Connection tracking of the ESP protection extension (hipfw/esp_prot_conntrack.c)\<close>

text \<open>Transform identifiers of hipfw/esp_prot_defines.h (not at hand), in the order in which
  the spec lists them.\<close>

definition ESP_PROT_TFM_UNUSED :: u8 where "ESP_PROT_TFM_UNUSED = 0"
definition ESP_PROT_TFM_PLAIN :: u8 where "ESP_PROT_TFM_PLAIN = 1"
definition ESP_PROT_TFM_PARALLEL :: u8 where "ESP_PROT_TFM_PARALLEL = 2"
definition ESP_PROT_TFM_CUMULATIVE :: u8 where "ESP_PROT_TFM_CUMULATIVE = 3"
definition ESP_PROT_TFM_PARA_CUMUL :: u8 where "ESP_PROT_TFM_PARA_CUMUL = 4"
definition ESP_PROT_TFM_TREE :: u8 where "ESP_PROT_TFM_TREE = 5"

definition ORIGINAL_DIR :: int where "ORIGINAL_DIR = 1"
definition REPLY_DIR :: int where "REPLY_DIR = 2"

text \<open>Memory: a fixed array of buffers is a function from the index, an array of pointers a
  function into options with \<open>None\<close> the null pointer. \<open>memcpy dst src n\<close> overwrites the
  first \<open>n\<close> bytes of \<open>dst\<close>; \<open>memcmp_eq a b n\<close> is \<open>memcmp(a, b, n) == 0\<close>.\<close>

definition memcpy :: "bytes \<Rightarrow> bytes \<Rightarrow> nat \<Rightarrow> bytes" where
  "memcpy dst src n = take n src @ drop n dst"

definition memcmp_eq :: "bytes \<Rightarrow> bytes \<Rightarrow> nat \<Rightarrow> bool" where
  "memcmp_eq a b n = (take n a = take n b)"

record esp_cumulative_item =
  ci_seq :: u32
  packet_hash :: bytes

record esp_anchor_item =
  ai_seq :: u32
  ai_transform :: u8
  ai_hash_item_length :: u32
  ai_active_anchors :: "nat \<Rightarrow> bytes option"
  ai_next_anchors :: "nat \<Rightarrow> bytes option"
  ai_root_length :: u8
  ai_roots :: "nat \<Rightarrow> bytes option"

record esp_tuple =
  spi :: u32
  seq_no :: u32
  esp_prot_tfm :: u8
  hash_item_length :: u32
  hash_tree_depth :: u32
  num_hchains :: int
  active_anchors :: "nat \<Rightarrow> bytes"
  first_active_anchors :: "nat \<Rightarrow> bytes"
  next_anchors :: "nat \<Rightarrow> bytes"
  active_root_length :: int
  active_roots :: "nat \<Rightarrow> bytes option"
  next_root_length :: "nat \<Rightarrow> int"
  next_roots :: "nat \<Rightarrow> bytes option"
  anchor_cache :: "esp_anchor_item list"
  hash_buffer :: "nat \<Rightarrow> esp_cumulative_item"

record tuple =
  esp_tuples :: "esp_tuple list"
  direction :: int
  lupdate_seq :: u32

record connection =
  original :: tuple
  reply :: tuple

text \<open>A \<open>struct tuple *\<close> of the C code is one of the two tuples embedded in its connection:
  it is the connection together with the side.\<close>

datatype side = Original | Reply

definition get_tuple :: "connection \<Rightarrow> side \<Rightarrow> tuple" where
  "get_tuple conn sd = (case sd of Original \<Rightarrow> original conn | Reply \<Rightarrow> reply conn)"

definition set_tuple :: "connection \<Rightarrow> side \<Rightarrow> tuple \<Rightarrow> connection" where
  "set_tuple conn sd t = (case sd of Original \<Rightarrow> conn\<lparr>original := t\<rparr> | Reply \<Rightarrow> conn\<lparr>reply := t\<rparr>)"

record esp_prot_conntrack_tfm =
  hash_length :: nat
  is_used :: int

text \<open>The file-scope variables of the firewall that the tracker reads, and the functions of
  hipfw/esp_prot_api.c and libcore/hashtree.c (not at hand) that it calls. The two element
  verifiers get the active anchor by a writable pointer: they return their result and the
  anchor buffer as they leave it.\<close>

record fw_globals =
  hip_esp_protection :: int
  window_size :: int
  num_parallel_hchains :: int
  ring_buffer_size :: int
  num_linear_elements :: int
  num_random_elements :: int
  esp_prot_conntrack_tfms :: "u8 \<Rightarrow> esp_prot_conntrack_tfm"
  fw_out_of_memory :: bool
  hash_function :: "u8 \<Rightarrow> bytes \<Rightarrow> bytes"
  esp_prot_verify_hchain_element ::
    "u8 \<Rightarrow> nat \<Rightarrow> bytes \<Rightarrow> bytes \<Rightarrow> bytes \<Rightarrow> u32 \<Rightarrow> bytes option \<Rightarrow> int \<Rightarrow> bytes option \<Rightarrow> int
       \<Rightarrow> int \<times> bytes"
  esp_prot_verify_htree_element ::
    "u8 \<Rightarrow> nat \<Rightarrow> u32 \<Rightarrow> bytes \<Rightarrow> bytes \<Rightarrow> bytes option \<Rightarrow> int \<Rightarrow> bytes option \<Rightarrow> int \<Rightarrow> bytes
       \<Rightarrow> int \<times> bytes"
  htree_verify_branch ::
    "bytes option \<Rightarrow> int \<Rightarrow> bytes \<Rightarrow> u32 \<Rightarrow> bytes \<Rightarrow> nat \<Rightarrow> u32 \<Rightarrow> bytes \<Rightarrow> nat \<Rightarrow> int"

text \<open>\<open>esp_prot_conntrack_resolve_transform\<close>: the table entry, or the null pointer for
  UNUSED.\<close>

definition esp_prot_conntrack_resolve_transform :: "fw_globals \<Rightarrow> u8 \<Rightarrow> esp_prot_conntrack_tfm option" where
  "esp_prot_conntrack_resolve_transform g transform =
     (if transform > ESP_PROT_TFM_UNUSED then Some (esp_prot_conntrack_tfms g transform) else None)"

text \<open>The linked list of libcore (only its header is at hand) holds the cache: a list with the
  head first. \<open>hip_ll_del\<close> removes the node at an index.\<close>

definition hip_ll_add_first :: "'a list \<Rightarrow> 'a \<Rightarrow> 'a list" where
  "hip_ll_add_first l x = x # l"

definition hip_ll_del :: "'a list \<Rightarrow> nat \<Rightarrow> 'a list" where
  "hip_ll_del l i = take i l @ drop (Suc i) l"

text \<open>The search loops return the index of the first hit.\<close>

fun find_index_from :: "('a \<Rightarrow> bool) \<Rightarrow> 'a list \<Rightarrow> nat \<Rightarrow> nat option" where
  "find_index_from P [] k = None"
| "find_index_from P (x # xs) k = (if P x then Some k else find_index_from P xs (Suc k))"

definition find_first :: "('a \<Rightarrow> bool) \<Rightarrow> 'a list \<Rightarrow> nat option" where
  "find_first P xs = find_index_from P xs 0"

text \<open>Modelled from the spec: \<open>find_esp_tuple\<close> (hipfw/conntrack.c) is not part of the sources
  at hand. An ESP tuple holds its SPI; the lookup returns the first tuple of the list with the
  SPI asked for.\<close>

definition find_esp_tuple :: "esp_tuple list \<Rightarrow> u32 \<Rightarrow> nat option" where
  "find_esp_tuple l s = find_first (\<lambda>et. spi et = s) l"

text \<open>\<open>esp_prot_conntrack_find_esp_tuple\<close>: the first ESP tuple whose first active anchor of
  chain 0 equals the anchor received.\<close>

definition esp_prot_conntrack_find_esp_tuple :: "tuple \<Rightarrow> bytes \<Rightarrow> nat \<Rightarrow> nat option" where
  "esp_prot_conntrack_find_esp_tuple t active_anchor hl =
     find_first (\<lambda>et. memcmp_eq (first_active_anchors et 0) active_anchor hl) (esp_tuples t)"

subsection \<open>Caching the anchors of a first UPDATE\<close>

text \<open>The parameters of an UPDATE as the tracker reads them. Update identifiers are kept in
  host order throughout; the C code stores and compares the identifiers of SEQ and ACK as they
  are on the wire, which decides equality the same way.\<close>

record esp_prot_anchor =
  pa_transform :: u8
  pa_hash_item_length :: u32
  pa_anchors :: bytes

record esp_prot_root =
  pr_root_length :: u8
  pr_root :: bytes

record esp_prot_branch =
  pb_branch_length :: u32
  pb_anchor_offset :: u32
  pb_branch_nodes :: bytes

record esp_prot_secret =
  ps_secret_length :: u8
  ps_secret :: bytes

text \<open>The handlers collect the parameters of a kind in local arrays of pointers. An element
  of such an array is a pointer to a parameter, the null pointer, or was never written.\<close>

datatype 'a ptr = Uninitialised | Null | Ptr 'a

text \<open>The loops that fill such an array write its first \<open>num_parallel_hchains\<close> elements:
  element \<open>i\<close> is what \<open>hip_get_param\<close> and then \<open>hip_get_next_param\<close> (libcore/builder.c,
  not at hand) return in round \<open>i\<close>.\<close>

definition param_array :: "int \<Rightarrow> (nat \<Rightarrow> 'a option) \<Rightarrow> nat \<Rightarrow> 'a ptr" where
  "param_array n params i =
     (if int i < n then (case params i of None \<Rightarrow> Null | Some p \<Rightarrow> Ptr p) else Uninitialised)"

text \<open>One round of the loop of \<open>esp_prot_conntrack_cache_anchor\<close>, for chain \<open>i\<close>; \<open>None\<close>
  is the dereference of a missing anchor parameter or the use of an array element that was
  never written.\<close>

definition cache_anchor_step ::
    "nat \<Rightarrow> (nat \<Rightarrow> esp_prot_anchor ptr) \<Rightarrow> (nat \<Rightarrow> esp_prot_root ptr) \<Rightarrow> nat
       \<Rightarrow> esp_anchor_item \<Rightarrow> esp_anchor_item option" where
  "cache_anchor_step hl esp_anchors esp_roots i item =
     (case esp_anchors i of
        Uninitialised \<Rightarrow> None
      | Null \<Rightarrow> None
      | Ptr a \<Rightarrow>
          (let item1 = item\<lparr>ai_active_anchors := (ai_active_anchors item)(i := Some (take hl (pa_anchors a)))\<rparr>;
               item2 = (if \<not> memcmp_eq (drop hl (pa_anchors a)) (replicate hl 0) hl
                        then item1\<lparr>ai_next_anchors :=
                                      (ai_next_anchors item1)(i := Some (take hl (drop hl (pa_anchors a))))\<rparr>
                        else item1\<lparr>ai_next_anchors := (ai_next_anchors item1)(i := None)\<rparr>)
           in (case esp_roots i of
                 Uninitialised \<Rightarrow> None
               | Null \<Rightarrow> Some item2
               | Ptr r \<Rightarrow>
                   Some (item2\<lparr>ai_roots := (ai_roots item2)(i := Some (take (unat (pr_root_length r)) (pr_root r))),
                               ai_root_length := pr_root_length r\<rparr>))))"

fun cache_anchor_loop ::
    "nat \<Rightarrow> (nat \<Rightarrow> esp_prot_anchor ptr) \<Rightarrow> (nat \<Rightarrow> esp_prot_root ptr) \<Rightarrow> nat list
       \<Rightarrow> esp_anchor_item \<Rightarrow> esp_anchor_item option" where
  "cache_anchor_loop hl esp_anchors esp_roots [] item = Some item"
| "cache_anchor_loop hl esp_anchors esp_roots (i # is) item =
     (case cache_anchor_step hl esp_anchors esp_roots i item of
        None \<Rightarrow> None
      | Some item' \<Rightarrow> cache_anchor_loop hl esp_anchors esp_roots is item')"

text \<open>\<open>esp_prot_conntrack_cache_anchor\<close>. The result is the return value and the tuple as the
  function leaves it; \<open>None\<close> is a failed assertion or a null dereference. Nothing in the
  function looks at the items already in the cache.\<close>

definition esp_prot_conntrack_cache_anchor ::
    "fw_globals \<Rightarrow> tuple \<Rightarrow> u32 \<Rightarrow> (nat \<Rightarrow> esp_prot_anchor ptr) \<Rightarrow> (nat \<Rightarrow> esp_prot_root ptr)
       \<Rightarrow> (int \<times> tuple) option" where
  "esp_prot_conntrack_cache_anchor g t seq_update_id esp_anchors esp_roots =
     (case esp_anchors 0 of
        Uninitialised \<Rightarrow> None
      | Null \<Rightarrow> None
      | Ptr a0 \<Rightarrow>
     (case esp_prot_conntrack_resolve_transform g (pa_transform a0) of
        None \<Rightarrow> None
      | Some conntrack_tfm \<Rightarrow>
     (let hl = hash_length conntrack_tfm in
     (case esp_prot_conntrack_find_esp_tuple t (pa_anchors a0) hl of
        None \<Rightarrow> Some (- 1, t)
      | Some k \<Rightarrow>
      if fw_out_of_memory g then Some (- 1, t) else
     (let et = esp_tuples t ! k;
          item0 = \<lparr>ai_seq = seq_update_id, ai_transform = pa_transform a0,
                   ai_hash_item_length = pa_hash_item_length a0,
                   ai_active_anchors = (\<lambda>_. None), ai_next_anchors = (\<lambda>_. None),
                   ai_root_length = 0, ai_roots = (\<lambda>_. None)\<rparr>
      in
     (case cache_anchor_loop hl esp_anchors esp_roots [0..<nat (num_hchains et)] item0 of
        None \<Rightarrow> None
      | Some item \<Rightarrow>
          Some (0, t\<lparr>esp_tuples :=
                       (esp_tuples t)[k := et\<lparr>anchor_cache := hip_ll_add_first (anchor_cache et) item\<rparr>]\<rparr>)))))))"


subsection \<open>Applying a cached update when its acknowledgement arrives\<close>

text \<open>One round of the loop of \<open>esp_prot_conntrack_update_anchor\<close>, for chain \<open>i\<close>: when the
  first active anchor of the ESP tuple equals the active anchor cached, the cached next anchor
  is copied into the next anchor of the ESP tuple, and the cached root, if there is one,
  becomes its next root. \<open>None\<close> is an access through a null anchor pointer of the item.\<close>

definition update_anchor_step :: "nat \<Rightarrow> esp_anchor_item \<Rightarrow> nat \<Rightarrow> esp_tuple \<Rightarrow> esp_tuple option" where
  "update_anchor_step hl item i et =
     (case ai_active_anchors item i of
        None \<Rightarrow> None
      | Some act \<Rightarrow>
          if memcmp_eq (first_active_anchors et i) act hl then
            (case ai_next_anchors item i of
               None \<Rightarrow> None
             | Some nxt \<Rightarrow>
                 (let et1 = et\<lparr>next_anchors := (next_anchors et)(i := memcpy (next_anchors et i) nxt hl)\<rparr>
                  in (case ai_roots item i of
                        None \<Rightarrow> Some et1
                      | Some r \<Rightarrow>
                          Some (et1\<lparr>next_root_length := (next_root_length et1)(i := uint (ai_root_length item)),
                                     next_roots := (next_roots et1)(i := Some r)\<rparr>))))
          else Some et)"

fun update_anchor_loop :: "nat \<Rightarrow> esp_anchor_item \<Rightarrow> nat list \<Rightarrow> esp_tuple \<Rightarrow> esp_tuple option" where
  "update_anchor_loop hl item [] et = Some et"
| "update_anchor_loop hl item (i # is) et =
     (case update_anchor_step hl item i et of
        None \<Rightarrow> None
      | Some et' \<Rightarrow> update_anchor_loop hl item is et')"

record hip_ack =
  peer_update_id :: u32

text \<open>\<open>esp_prot_conntrack_update_anchor\<close>, for the tuple on side \<open>sd\<close> of the connection. The
  ESP tuple is looked up by SPI in the tuple of the other direction, the cache of that ESP tuple
  is searched from its head for an item with the acknowledged identifier, and on a hit the item
  is applied and removed. The result is the return value and the connection as the function
  leaves it; \<open>None\<close> is a failed assertion or a null dereference.\<close>

definition esp_prot_conntrack_update_anchor ::
    "fw_globals \<Rightarrow> connection \<Rightarrow> side \<Rightarrow> hip_ack option \<Rightarrow> hip_esp_info option
       \<Rightarrow> (int \<times> connection) option" where
  "esp_prot_conntrack_update_anchor g conn sd ack esp_info =
     (case ack of None \<Rightarrow> None | Some ack' \<Rightarrow>
     (case esp_info of None \<Rightarrow> None | Some esp_info' \<Rightarrow>
     (let other_sd = (if direction (get_tuple conn sd) = ORIGINAL_DIR then Reply else Original);
          other_dir_tuple = get_tuple conn other_sd
      in
     (case find_esp_tuple (esp_tuples other_dir_tuple) (old_spi esp_info') of
        None \<Rightarrow> Some (- 1, conn)
      | Some k \<Rightarrow>
     (let et = esp_tuples other_dir_tuple ! k in
     (case find_first (\<lambda>item. ai_seq item = peer_update_id ack') (anchor_cache et) of
        None \<Rightarrow> Some (- 1, conn)
      | Some element_index \<Rightarrow>
     (case esp_prot_conntrack_resolve_transform g (esp_prot_tfm et) of
        None \<Rightarrow> None
      | Some conntrack_tfm \<Rightarrow>
     (let anchor_item = anchor_cache et ! element_index;
          hl = hash_length conntrack_tfm;
          et1 = et\<lparr>hash_item_length := ai_hash_item_length anchor_item\<rparr>
      in
     (case update_anchor_loop hl anchor_item [0..<nat (num_hchains et1)] et1 of
        None \<Rightarrow> None
      | Some et2 \<Rightarrow>
          (let et3 = et2\<lparr>anchor_cache := hip_ll_del (anchor_cache et2) element_index\<rparr>
           in Some (0, set_tuple conn other_sd
                         (other_dir_tuple\<lparr>esp_tuples := (esp_tuples other_dir_tuple)[k := et3]\<rparr>))))))))))))"

subsection \<open>UPDATE and light UPDATE\<close>

text \<open>One round of the loop of \<open>esp_prot_conntrack_verify_branch\<close>: the error code so far and
  the code after chain \<open>i\<close>.\<close>

definition verify_branch_step ::
    "fw_globals \<Rightarrow> nat \<Rightarrow> esp_tuple \<Rightarrow> (nat \<Rightarrow> esp_prot_anchor ptr) \<Rightarrow> (nat \<Rightarrow> esp_prot_branch ptr)
       \<Rightarrow> (nat \<Rightarrow> esp_prot_secret ptr) \<Rightarrow> nat \<Rightarrow> int \<Rightarrow> int option" where
  "verify_branch_step g hl et esp_anchors esp_branches esp_secrets i err =
     (case esp_branches i of Uninitialised \<Rightarrow> None | Null \<Rightarrow> None | Ptr b \<Rightarrow>
     (case esp_anchors i of Uninitialised \<Rightarrow> None | Null \<Rightarrow> None | Ptr a \<Rightarrow>
     (case esp_secrets i of Uninitialised \<Rightarrow> None | Null \<Rightarrow> None | Ptr sec \<Rightarrow>
        if htree_verify_branch g (active_roots et i) (active_root_length et) (pb_branch_nodes b)
             (pb_branch_length b) (drop hl (pa_anchors a)) hl (pb_anchor_offset b)
             (ps_secret sec) (unat (ps_secret_length sec)) = 0
        then Some err else Some (- 1))))"

fun verify_branch_loop ::
    "fw_globals \<Rightarrow> nat \<Rightarrow> esp_tuple \<Rightarrow> (nat \<Rightarrow> esp_prot_anchor ptr) \<Rightarrow> (nat \<Rightarrow> esp_prot_branch ptr)
       \<Rightarrow> (nat \<Rightarrow> esp_prot_secret ptr) \<Rightarrow> nat list \<Rightarrow> int \<Rightarrow> int option" where
  "verify_branch_loop g hl et esp_anchors esp_branches esp_secrets [] err = Some err"
| "verify_branch_loop g hl et esp_anchors esp_branches esp_secrets (i # is) err =
     (case verify_branch_step g hl et esp_anchors esp_branches esp_secrets i err of
        None \<Rightarrow> None
      | Some err' \<Rightarrow> verify_branch_loop g hl et esp_anchors esp_branches esp_secrets is err')"

definition esp_prot_conntrack_verify_branch ::
    "fw_globals \<Rightarrow> tuple \<Rightarrow> (nat \<Rightarrow> esp_prot_anchor ptr) \<Rightarrow> (nat \<Rightarrow> esp_prot_branch ptr)
       \<Rightarrow> (nat \<Rightarrow> esp_prot_secret ptr) \<Rightarrow> int option" where
  "esp_prot_conntrack_verify_branch g t esp_anchors esp_branches esp_secrets =
     (case esp_anchors 0 of Uninitialised \<Rightarrow> None | Null \<Rightarrow> None | Ptr a0 \<Rightarrow>
     (case esp_branches 0 of Uninitialised \<Rightarrow> None | Null \<Rightarrow> None | Ptr b0 \<Rightarrow>
     (case esp_secrets 0 of Uninitialised \<Rightarrow> None | Null \<Rightarrow> None | Ptr s0 \<Rightarrow>
     (case esp_prot_conntrack_resolve_transform g (pa_transform a0) of
        None \<Rightarrow> None
      | Some conntrack_tfm \<Rightarrow>
     (let hl = hash_length conntrack_tfm in
     (case esp_prot_conntrack_find_esp_tuple t (pa_anchors a0) hl of
        None \<Rightarrow> Some (- 1)
      | Some k \<Rightarrow>
          verify_branch_loop g hl (esp_tuples t ! k) esp_anchors esp_branches esp_secrets
            [0..<nat (num_hchains (esp_tuples t ! k))] 0))))))"

text \<open>The parameters of an UPDATE or light UPDATE that the tracker looks at: SEQ, ACK and
  ESP_INFO as \<open>hip_get_param\<close> finds them, and for the anchors, branches, secrets and roots
  what \<open>hip_get_param\<close> (round 0) and \<open>hip_get_next_param\<close> (the later rounds) give to the
  loop that fills the array of that kind.\<close>

record update_msg =
  u_seq :: "u32 option"
  u_ack :: "hip_ack option"
  u_esp_info :: "hip_esp_info option"
  u_anchors :: "nat \<Rightarrow> esp_prot_anchor option"
  u_branches :: "nat \<Rightarrow> esp_prot_branch option"
  u_secrets :: "nat \<Rightarrow> esp_prot_secret option"
  u_roots :: "nat \<Rightarrow> esp_prot_root option"

text \<open>\<open>esp_prot_conntrack_update\<close>: the four parameter combinations it tells apart. The local
  array \<open>esp_roots\<close> has no initialiser and is written only when the message has a ROOT
  parameter; \<open>esp_prot_conntrack_cache_anchor\<close> reads it all the same.\<close>

definition esp_prot_conntrack_update ::
    "fw_globals \<Rightarrow> connection \<Rightarrow> side \<Rightarrow> update_msg \<Rightarrow> (int \<times> connection) option" where
  "esp_prot_conntrack_update g conn sd update =
     (if hip_esp_protection g = 0 then Some (0, conn)
      else
        (let seq = u_seq update; ack = u_ack update; esp_info = u_esp_info update;
             param = u_anchors update 0
         in
         if seq \<noteq> None \<and> ack = None \<and> esp_info = None \<and> param \<noteq> None then
           (let esp_anchors = param_array (num_parallel_hchains g) (u_anchors update);
                esp_roots = (if u_roots update 0 \<noteq> None
                             then param_array (num_parallel_hchains g) (u_roots update)
                             else (\<lambda>i. Uninitialised))
            in
           (case esp_prot_conntrack_cache_anchor g (get_tuple conn sd)
                   (case seq of Some update_id \<Rightarrow> update_id | None \<Rightarrow> 0)
                   esp_anchors esp_roots of
              None \<Rightarrow> None
            | Some (e, t') \<Rightarrow> Some (if e \<noteq> 0 then - 1 else 0, set_tuple conn sd t')))
         else if seq \<noteq> None \<and> ack \<noteq> None \<and> esp_info \<noteq> None \<and> param \<noteq> None then Some (- 1, conn)
         else if seq = None \<and> ack \<noteq> None \<and> esp_info \<noteq> None \<and> param = None then
           (case esp_prot_conntrack_update_anchor g conn sd ack esp_info of
              None \<Rightarrow> None
            | Some (e, conn') \<Rightarrow> Some (if e \<noteq> 0 then - 1 else 0, conn'))
         else if seq = None \<and> ack \<noteq> None \<and> esp_info \<noteq> None \<and> param \<noteq> None then Some (- 1, conn)
         else Some (0, conn)))"

text \<open>\<open>esp_prot_conntrack_lupdate\<close>: a light update with a SEQ is refused when its identifier
  is smaller than the last one seen; otherwise the identifier is recorded, the branches are
  verified and the anchors are cached. Here \<open>esp_roots\<close> is initialised with null pointers.\<close>

definition esp_prot_conntrack_lupdate ::
    "fw_globals \<Rightarrow> connection \<Rightarrow> side \<Rightarrow> update_msg \<Rightarrow> (int \<times> connection) option" where
  "esp_prot_conntrack_lupdate g conn sd common =
     (if hip_esp_protection g = 0 then Some (0, conn)
      else
        (case u_seq common of
           Some update_id \<Rightarrow>
             (let esp_anchors = param_array (num_parallel_hchains g) (u_anchors common);
                  esp_branches = param_array (num_parallel_hchains g) (u_branches common);
                  esp_secrets = param_array (num_parallel_hchains g) (u_secrets common);
                  esp_roots = (\<lambda>i. if u_roots common 0 \<noteq> None \<and> int i < num_parallel_hchains g
                                    then (case u_roots common i of None \<Rightarrow> Null | Some r \<Rightarrow> Ptr r)
                                    else Null)
              in
             if update_id < lupdate_seq (get_tuple conn sd) then Some (- 1, conn)
             else
               (let t1 = (get_tuple conn sd)\<lparr>lupdate_seq := update_id\<rparr>;
                    conn1 = set_tuple conn sd t1
                in
               (case esp_prot_conntrack_verify_branch g t1 esp_anchors esp_branches esp_secrets of
                  None \<Rightarrow> None
                | Some e \<Rightarrow>
                    if e \<noteq> 0 then Some (- 1, conn1)
                    else
                      (case esp_prot_conntrack_cache_anchor g t1 update_id esp_anchors esp_roots of
                         None \<Rightarrow> None
                       | Some (e', t2) \<Rightarrow> Some (if e' \<noteq> 0 then - 1 else 0, set_tuple conn sd t2)))))
         | None \<Rightarrow>
             if u_ack common \<noteq> None then
               (case esp_prot_conntrack_update_anchor g conn sd (u_ack common) (u_esp_info common) of
                  None \<Rightarrow> None
                | Some (e, conn') \<Rightarrow> Some (if e \<noteq> 0 then - 1 else 0, conn'))
             else Some (- 1, conn)))"


subsection \<open>Verifying the token of an ESP packet\<close>












section \<open>Userspace ESP (hipfw/user_ipsec_esp.c)\<close>

definition ICV_LENGTH :: nat where "ICV_LENGTH = 12"
definition AES_BLOCK_SIZE :: nat where "AES_BLOCK_SIZE = 16"
definition sizeof_hip_esp_tail :: nat where "sizeof_hip_esp_tail = 2"

record hip_sa_entry =
  ealg :: int
  enc_key :: "bytes option"
  auth_key :: "bytes option"

text \<open>The ciphers of OpenSSL and the offset of the payload behind the ESP header (hipfw/esp_prot_api.c,
  not at hand) are parameters. A cipher takes the key, the IV, the input and the direction
  (\<open>True\<close> to encrypt).\<close>

record cipher_env =
  des_ede3_cbc_encrypt :: "bytes \<Rightarrow> bytes \<Rightarrow> bytes \<Rightarrow> bool \<Rightarrow> bytes"
  BF_cbc_encrypt :: "bytes \<Rightarrow> bytes \<Rightarrow> bytes \<Rightarrow> bool \<Rightarrow> bytes"
  AES_cbc_encrypt :: "bytes \<Rightarrow> bytes \<Rightarrow> bytes \<Rightarrow> bool \<Rightarrow> bytes"
  esp_prot_get_data_offset :: "hip_sa_entry \<Rightarrow> u16"
  RAND_bytes :: "nat \<Rightarrow> bytes"

text \<open>Writing \<open>data\<close> into a buffer at offset \<open>off\<close>, and reading \<open>n\<close> bytes at an
  offset. The C code does not check either against the size of the buffer (the source notes
  the overflow): a write past the end extends the buffer, and the memory behind the end reads
  as zero.\<close>

definition buf_write :: "bytes \<Rightarrow> nat \<Rightarrow> bytes \<Rightarrow> bytes" where
  "buf_write buf off data =
     take off (buf @ replicate (off - length buf) 0) @ data @ drop (off + length data) buf"

definition buf_read :: "bytes \<Rightarrow> nat \<Rightarrow> nat \<Rightarrow> bytes" where
  "buf_read buf off n = take n (drop off buf @ replicate n 0)"

text \<open>The first switch of \<open>payload_encrypt\<close> and the third of \<open>payload_decrypt\<close>: the length
  of the IV, or -1 for a missing key or an unknown transform.\<close>

definition esp_iv_len :: "hip_sa_entry \<Rightarrow> int + nat" where
  "esp_iv_len entry =
     (if ealg entry = HIP_ESP_3DES_SHA1 \<or> ealg entry = HIP_ESP_3DES_MD5 then
        (if enc_key entry = None then Inl (- 1) else Inr 8)
      else if ealg entry = HIP_ESP_BLOWFISH_SHA1 then
        (if enc_key entry = None then Inl (- 1) else Inr 8)
      else if ealg entry = HIP_ESP_NULL_SHA1 \<or> ealg entry = HIP_ESP_NULL_MD5 then Inr 0
      else if ealg entry = HIP_ESP_AES_SHA1 then
        (if enc_key entry = None then Inl (- 1) else Inr AES_BLOCK_SIZE)
      else Inl (- 1))"

text \<open>The length of the padding: to the IV length for a cipher with an IV, to 4 otherwise.\<close>

definition esp_pad_len :: "nat \<Rightarrow> u16 \<Rightarrow> u16" where
  "esp_pad_len iv_len elen =
     (if iv_len > 0 then of_nat (iv_len - (unat elen + sizeof_hip_esp_tail) mod iv_len)
      else of_nat (4 - (unat elen + sizeof_hip_esp_tail) mod 4))"

text \<open>The padding loop and the ESP tail: the bytes written behind the payload.\<close>

definition esp_padding :: "u16 \<Rightarrow> u8 \<Rightarrow> bytes" where
  "esp_padding pad_len in_type =
     map (\<lambda>i. of_nat (i + 1)) [0..<unat pad_len] @ [ucast pad_len, in_type]"

text \<open>The second switch of \<open>payload_encrypt\<close>: the cipher output goes behind the IV, but for the
  NULL transforms the plaintext is copied to the very start of the output buffer.\<close>

definition esp_encrypt_into ::
    "cipher_env \<Rightarrow> hip_sa_entry \<Rightarrow> bytes \<Rightarrow> bytes \<Rightarrow> bytes \<Rightarrow> nat \<Rightarrow> bytes" where
  "esp_encrypt_into ce entry cbc_iv plain out off =
     (let key = (case enc_key entry of Some k \<Rightarrow> k | None \<Rightarrow> []) in
      if ealg entry = HIP_ESP_3DES_SHA1 \<or> ealg entry = HIP_ESP_3DES_MD5
      then buf_write out off (des_ede3_cbc_encrypt ce key cbc_iv plain True)
      else if ealg entry = HIP_ESP_BLOWFISH_SHA1
      then buf_write out off (BF_cbc_encrypt ce key cbc_iv plain True)
      else if ealg entry = HIP_ESP_NULL_SHA1 \<or> ealg entry = HIP_ESP_NULL_MD5
      then buf_write out 0 plain
      else buf_write out off (AES_cbc_encrypt ce key cbc_iv plain True))"

text \<open>The third switch of \<open>payload_encrypt\<close> and the first of \<open>payload_decrypt\<close>: the digest
  that authenticates a packet under a transform. There is no case for BLOWFISH-SHA1.\<close>

definition esp_auth_md :: "int \<Rightarrow> evp_md option" where
  "esp_auth_md alg =
     (if alg = HIP_ESP_3DES_MD5 \<or> alg = HIP_ESP_NULL_MD5 then Some EVP_md5
      else if alg = HIP_ESP_3DES_SHA1 \<or> alg = HIP_ESP_NULL_SHA1 \<or> alg = HIP_ESP_AES_SHA1
      then Some EVP_sha1
      else None)"

record encrypt_result =
  enc_err :: int
  enc_in :: bytes
  enc_out :: bytes
  enc_out_len :: u16

text \<open>\<open>payload_encrypt\<close>. \<open>inb\<close> is the buffer with the payload, \<open>out\<close> the buffer that starts
  with the ESP header, \<open>out_len\<close> the value of \<open>*out_len\<close> on entry. The result has the
  return value and both buffers and \<open>*out_len\<close> as the function leaves them.\<close>

definition payload_encrypt ::
    "cipher_env \<Rightarrow> externals \<Rightarrow> bytes \<Rightarrow> u8 \<Rightarrow> u16 \<Rightarrow> bytes \<Rightarrow> u16 \<Rightarrow> hip_sa_entry \<Rightarrow> encrypt_result" where
  "payload_encrypt ce ext inb in_type in_len out out_len entry =
     (let esp_data_offset = esp_prot_get_data_offset ce entry in
     (case esp_iv_len entry of
        Inl e \<Rightarrow> \<lparr>enc_err = e, enc_in = inb, enc_out = out, enc_out_len = out_len\<rparr>
      | Inr iv_len \<Rightarrow>
     (let cbc_iv = RAND_bytes ce iv_len;
          out1 = (if iv_len > 0 then buf_write out (unat esp_data_offset) cbc_iv else out);
          pad_len = esp_pad_len iv_len in_len;
          in1 = buf_write inb (unat in_len) (esp_padding pad_len in_type);
          elen1 = in_len + pad_len + of_nat sizeof_hip_esp_tail;
          out2 = esp_encrypt_into ce entry cbc_iv (buf_read in1 0 (unat elen1)) out1
                   (unat esp_data_offset + iv_len);
          elen2 = elen1 + of_nat iv_len;
          out_len1 = out_len + elen2;
          elen3 = elen2 + esp_data_offset
      in
     (case esp_auth_md (ealg entry) of
        None \<Rightarrow> \<lparr>enc_err = - 1, enc_in = in1, enc_out = out2, enc_out_len = out_len1\<rparr>
      | Some md \<Rightarrow>
     (case auth_key entry of
        None \<Rightarrow> \<lparr>enc_err = - 1, enc_in = in1, enc_out = out2, enc_out_len = out_len1\<rparr>
      | Some akey \<Rightarrow>
          \<lparr>enc_err = 0, enc_in = in1,
           enc_out = buf_write out2 (unat elen3)
                       (HMAC ext md akey (hip_auth_key_length_esp ext (ealg entry))
                          (buf_read out2 0 (unat elen3))),
           enc_out_len = out_len1 + of_nat ICV_LENGTH\<rparr>)))))"





section \<open>Concrete inputs\<close>

text \<open>Two hosts with the HITs 1 and 2, functions standing in for the cryptography, and the
  messages and host associations on which the theorems below are run.\<close>

definition ha0 :: hip_hadb_state where
  "ha0 = \<lparr>hit_our = 2, hit_peer = 1, state = HIP_STATE_I2_SENT, peer_controls = 0,
     is_loopback = 0, our_addr = 0, esp_transform = 0, hip_transform = 0, birthday = 0,
     dh_shared_key = None, dh_shared_key_len = 0, nat_mode = 0, local_udp_port = 0,
     peer_udp_port = 0, hip_enc_out = [], hip_hmac_out = [], esp_out = [], auth_out = [],
     hip_enc_in = [], hip_hmac_in = [], esp_in = [], auth_in = [], current_keymat_index = 0,
     keymat_calc_index = 0, esp_keymat_index = 0, current_keymat_K = None, our_pub = None,
     peer_pub = None, spi_outbound_old = 0, spi_outbound_new = 0, hip_version = 1\<rparr>"

definition host_id0 :: hip_host_id where
  "host_id0 = \<lparr>hi_algorithm = 5, hi_key = [1, 2, 3], hi_hostname = []\<rparr>"

definition msg0 :: hip_common where
  "msg0 = \<lparr>payload_len = 30, msg_version = 1, checksum = 0x1234, control = 0,
     hit_sender = 1, hit_receiver = 2,
     p_esp_info = Some \<lparr>old_spi = 0, new_spi = 0x1001, keymat_index = 72\<rparr>,
     p_r1_counter = None,
     p_solution = Some \<lparr>sol_K = 10, sol_I = [1, 2], sol_J = [3, 4]\<rparr>,
     p_diffie_hellman = Some \<lparr>pub_val = \<lparr>group_id = 3, pub_len = 192, public_value = [9]\<rparr>,
                                pub_val2 = None\<rparr>,
     p_hip_transform = Some [1], p_esp_transform = Some [1], p_encrypted = None,
     p_host_id = Some \<lparr>tlv_type = 705, tlv_host_id = Some host_id0\<rparr>,
     p_hmac = Some \<lparr>hmac_offset = 200, hmac_data = replicate 20 7\<rparr>,
     p_hmac2 = None, p_locator = None, p_dh_group_list = Some [8, 3]\<rparr>"

definition ext0 :: externals where
  "ext0 = \<lparr>HMAC = (\<lambda>md key klen data. case md of EVP_sha1 \<Rightarrow> replicate 20 7 | EVP_md5 \<Rightarrow> replicate 16 5),
     sha1 = (\<lambda>data. map (\<lambda>i. of_nat i + last data) [0..<20]),
     wire = (\<lambda>msg. []),
     out_of_memory = False,
     hip_hmac_key_length = (\<lambda>tfm. 20),
     hip_transform_key_length = (\<lambda>tfm. 16),
     hip_enc_key_length = (\<lambda>tfm. 16),
     hip_auth_key_length_esp = (\<lambda>tfm. 20),
     hip_select_hip_transform = (\<lambda>l. 1),
     hip_select_esp_transform = (\<lambda>l. 1),
     hip_get_param_transform_suite_id = (\<lambda>l. 1),
     hip_dh_select_key = pub_val,
     hip_calculate_shared_secret = (\<lambda>g v l. (4, [1, 2, 3, 4])),
     hip_hidb_hit_is_our = (\<lambda>h. h = 2),
     hip_controls_sane = (\<lambda>c m. True),
     relay_full_record = (\<lambda>h. False),
     hip_del_peer_info_entry = (\<lambda>ha. 0),
     hip_hadb_create_state = ha0\<lparr>state := HIP_STATE_UNASSOCIATED\<rparr>,
     hip_init_us = (\<lambda>ha h. ha\<lparr>hit_our := h\<rparr>),
     hip_init_peer = (\<lambda>h. 0),
     hip_verify_cookie = (\<lambda>s d m sol v g. 0),
     hip_crypto_encrypted = (\<lambda>enc tfm len key. (0, \<lparr>tlv_type = 705, tlv_host_id = Some host_id0\<rparr>)),
     verify_signature = (\<lambda>h m. 0),
     hip_devaddr2ifindex = (\<lambda>a. 1),
     hip_hadb_add_peer_addr = (\<lambda>ha a. 0),
     esp_prot_i2_handle_anchor = (\<lambda>ctx. 0),
     esp_prot_r2_handle_anchor = (\<lambda>ha m. 0),
     hip_get_local_nat_udp_port = 10500,
     hip_handle_registration = (\<lambda>ha m. ha)\<rparr>"

definition ctx0 :: hip_packet_context where
  "ctx0 = \<lparr>input_msg = msg0, src_addr = 11, dst_addr = 12,
     msg_ports = \<lparr>src_port = 0, dst_port = 0\<rparr>, hadb_entry = Some ha0, error = 0\<rparr>"


definition ctxB0 :: hip_packet_context where
  "ctxB0 = ctx0\<lparr>hadb_entry := Some (ha0\<lparr>hit_our := 1, hit_peer := 2\<rparr>),
                input_msg := msg0\<lparr>hit_sender := 2, hit_receiver := 1\<rparr>\<rparr>"

definition msg_bad_hmac :: hip_common where
  "msg_bad_hmac = msg0\<lparr>p_hmac := Some \<lparr>hmac_offset = 200, hmac_data = replicate 20 0\<rparr>\<rparr>"

definition ctx_v2 :: hip_packet_context where
  "ctx_v2 = ctx0\<lparr>input_msg := msg0\<lparr>msg_version := 2\<rparr>, hadb_entry := None\<rparr>"

definition msgB0 :: hip_common where
  "msgB0 = msg0\<lparr>hit_sender := 2, hit_receiver := 1, p_hip_transform := Some [1, 2]\<rparr>"

definition ce0 :: cipher_env where
  "ce0 = \<lparr>des_ede3_cbc_encrypt = (\<lambda>key iv data enc. map (\<lambda>b. b XOR 0x55) data),
          BF_cbc_encrypt = (\<lambda>key iv data enc. map (\<lambda>b. b XOR 0x33) data),
          AES_cbc_encrypt = (\<lambda>key iv data enc. map (\<lambda>b. b XOR 0xAA) data),
          esp_prot_get_data_offset = (\<lambda>entry. 8),
          RAND_bytes = (\<lambda>n. replicate n 0x42)\<rparr>"

definition sa_aes :: hip_sa_entry where
  "sa_aes = \<lparr>ealg = HIP_ESP_AES_SHA1, enc_key = Some [1], auth_key = Some [2]\<rparr>"


text \<open>A firewall with a window of 64 and hashes of two bytes. The stand-in for the hash chain
  verification accepts the token \<open>AA AA\<close> and makes it the active anchor, and refuses any
  other token.\<close>

definition g0 :: fw_globals where
  "g0 = \<lparr>hip_esp_protection = 1, window_size = 64, num_parallel_hchains = 1,
          ring_buffer_size = 64, num_linear_elements = 1, num_random_elements = 0,
          esp_prot_conntrack_tfms = (\<lambda>t. \<lparr>hash_length = 2, is_used = 1\<rparr>),
          fw_out_of_memory = False,
          hash_function = (\<lambda>t data. take 2 data),
          esp_prot_verify_hchain_element =
            (\<lambda>t hl active nxt token n ar arl nr nrl.
               if take hl token = [0xAA, 0xAA] then (0, take hl token @ drop hl active)
               else (- 1, active)),
          esp_prot_verify_htree_element =
            (\<lambda>t hl depth active nxt ar arl nr nrl token. (0, active)),
          htree_verify_branch = (\<lambda>root rl nodes bl anchor hl off secret sl. 0)\<rparr>"

definition et0 :: esp_tuple where
  "et0 = \<lparr>spi = 0x2002, seq_no = 5, esp_prot_tfm = ESP_PROT_TFM_PLAIN, hash_item_length = 16,
           hash_tree_depth = 0, num_hchains = 1,
           active_anchors = (\<lambda>i. [1, 1]), first_active_anchors = (\<lambda>i. [1, 1]),
           next_anchors = (\<lambda>i. [0, 0]), active_root_length = 0, active_roots = (\<lambda>i. None),
           next_root_length = (\<lambda>i. 0), next_roots = (\<lambda>i. None), anchor_cache = [],
           hash_buffer = (\<lambda>i. \<lparr>ci_seq = 0, packet_hash = []\<rparr>)\<rparr>"





text \<open>A connection whose reply direction has one ESP tuple with an anchor update pending: the
  cache holds one item, for update 7, with the next anchor \<open>AA AA\<close>. The UPDATE that announces
  this anchor, and the ACK and ESP_INFO that acknowledge it.\<close>

definition item0 :: esp_anchor_item where
  "item0 = \<lparr>ai_seq = 7, ai_transform = ESP_PROT_TFM_PLAIN, ai_hash_item_length = 16,
             ai_active_anchors = (\<lambda>i. None)(0 := Some [1, 1]),
             ai_next_anchors = (\<lambda>i. None)(0 := Some [0xAA, 0xAA]),
             ai_root_length = 0, ai_roots = (\<lambda>i. None)\<rparr>"

definition et_pending :: esp_tuple where
  "et_pending = et0\<lparr>anchor_cache := [item0]\<rparr>"

definition conn0 :: connection where
  "conn0 = \<lparr>original = \<lparr>esp_tuples = [], direction = ORIGINAL_DIR, lupdate_seq = 0\<rparr>,
             reply = \<lparr>esp_tuples = [et_pending], direction = REPLY_DIR, lupdate_seq = 7\<rparr>\<rparr>"

definition ack0 :: hip_ack where
  "ack0 = \<lparr>peer_update_id = 7\<rparr>"

definition esp_info0 :: hip_esp_info where
  "esp_info0 = \<lparr>old_spi = 0x2002, new_spi = 0x2002, keymat_index = 0\<rparr>"

definition update0 :: update_msg where
  "update0 = \<lparr>u_seq = Some 7, u_ack = None, u_esp_info = None,
               u_anchors = (\<lambda>i. if i = 0 then Some \<lparr>pa_transform = ESP_PROT_TFM_PLAIN,
                                                     pa_hash_item_length = 16,
                                                     pa_anchors = [1, 1, 0xAA, 0xAA]\<rparr>
                                 else None),
               u_branches = (\<lambda>i. if i = 0 then Some \<lparr>pb_branch_length = 0, pb_anchor_offset = 0,
                                                      pb_branch_nodes = []\<rparr>
                                  else None),
               u_secrets = (\<lambda>i. if i = 0 then Some \<lparr>ps_secret_length = 0, ps_secret = []\<rparr>
                                 else None),
               u_roots = (\<lambda>i. None)\<rparr>"

text \<open>The same UPDATE with a ROOT parameter, once with the identifier 7 that is already
  cached and once with the new identifier 9.\<close>

definition update9 :: update_msg where
  "update9 = update0\<lparr>u_seq := Some 9,
                      u_roots := (\<lambda>i. if i = 0 then Some \<lparr>pr_root_length = 2, pr_root = [3, 3]\<rparr>
                                       else None)\<rparr>"

definition update_root0 :: update_msg where
  "update_root0 = update0\<lparr>u_roots := (\<lambda>i. if i = 0 then Some \<lparr>pr_root_length = 2, pr_root = [3, 3]\<rparr>
                                          else None)\<rparr>"






section \<open>Properties of the control plane\<close>

lemmas errnos = ENOENT_def ENXIO_def ENOMEM_def EINVAL_def ENOSYS_def ENOMSG_def ENODATA_def
  EPROTO_def EOPNOTSUPP_def ECANCELED_def

lemma ext0_sel:
  "hip_hidb_hit_is_our ext0 h = (h = 2)"
  "hip_controls_sane ext0 c m = True"
  "relay_full_record ext0 h = False"
  "hip_verify_cookie ext0 s d m' sol v g = 0"
  "out_of_memory ext0 = False"
  by (simp_all add: ext0_def)

subsection \<open>I2 received in state I2-SENT\<close>

lemma hip_handle_i2_established:
  "hip_handle_i2 ext ctx = Some (0, ctx') \<Longrightarrow>
     \<exists>ha'. hadb_entry ctx' = Some ha' \<and> state ha' = HIP_STATE_ESTABLISHED"
  by (auto simp: hip_handle_i2_def out_err_def Let_def errnos split: option.splits if_splits)

lemma hip_handle_r2_established:
  "hip_handle_r2 ext ctx = Some (0, ctx', evs) \<Longrightarrow>
     \<exists>ha'. hadb_entry ctx' = Some ha' \<and> state ha' = HIP_STATE_ESTABLISHED"
  by (auto simp: hip_handle_r2_def Let_def errnos split: option.splits if_splits)

text \<open>Claim C6 as stated fails: the host with the bigger HIT (our HIT 2, peer HIT 1), in state
  I2-SENT, does not drop the I2 it receives; the handler returns 0 and leaves the context as it
  was.\<close>

theorem i2_collision_bigger_hit_accepts_counterexample:
  "hip_hit_is_bigger (hit_our ha0) (hit_peer ha0) \<and> state ha0 = HIP_STATE_I2_SENT
   \<and> hip_handle_i2_in_i2_sent ctx0 = Some (0, ctx0)"
  by (simp add: hip_handle_i2_in_i2_sent_def hip_hit_is_bigger_def ctx0_def ha0_def)

text \<open>Claim C6, amended: in an I2/I2 collision with HIT_A > HIT_B, the side with the smaller
  HIT (B) drops the I2 it received (the handler sets the error flag and returns 1, the host
  association stays as it is), while the side with the bigger HIT (A) lets the received I2
  through. A reaches ESTABLISHED when \<open>hip_handle_i2\<close> succeeds on that I2, B when
  \<open>hip_handle_r2\<close> succeeds on the R2 that answers its own I2.\<close>

theorem i2_collision_smaller_hit_drops:
  assumes "hadb_entry ctxA = Some haA" and "hadb_entry ctxB = Some haB"
    and "hit_our haA = hit_peer haB" and "hit_peer haA = hit_our haB"
    and "hip_hit_is_bigger (hit_our haA) (hit_our haB)"
    and "error ctxA = 0"
    and "hip_handle_i2 ext ctxA = Some (0, ctxA')"
    and "hadb_entry ctxR = Some haB" and "hip_handle_r2 ext ctxR = Some (0, ctxB', evs)"
  shows "hip_handle_i2_in_i2_sent ctxB = Some (1, ctxB\<lparr>error := 1\<rparr>)
       \<and> hip_handle_i2_in_i2_sent ctxA = Some (0, ctxA)
       \<and> (\<exists>ha'. hadb_entry ctxA' = Some ha' \<and> state ha' = HIP_STATE_ESTABLISHED)
       \<and> (\<exists>ha'. hadb_entry ctxB' = Some ha' \<and> state ha' = HIP_STATE_ESTABLISHED)"
proof -
  have "hip_handle_i2_in_i2_sent ctxB = Some (1, ctxB\<lparr>error := 1\<rparr>)"
    using assms(2,3,5) by (simp add: hip_handle_i2_in_i2_sent_def)
  moreover have "hip_handle_i2_in_i2_sent ctxA = Some (0, ctxA)"
    using assms(1,3,4,5,6) by (auto simp: hip_handle_i2_in_i2_sent_def hip_hit_is_bigger_def)
  ultimately show ?thesis
    using hip_handle_i2_established[OF assms(7)] hip_handle_r2_established[OF assms(9)]
    by simp
qed

text \<open>The amended claim at the two hosts with HITs 2 (A) and 1 (B).\<close>

theorem i2_collision_smaller_hit_drops_witness:
  "hip_handle_i2_in_i2_sent ctxB0 = Some (1, ctxB0\<lparr>error := 1\<rparr>)
   \<and> hip_handle_i2_in_i2_sent ctx0 = Some (0, ctx0)
   \<and> map_option fst (hip_handle_i2 ext0 ctx0) = Some 0
   \<and> (\<exists>ha'. hadb_entry (snd (the (hip_handle_i2 ext0 ctx0))) = Some ha'
          \<and> state ha' = HIP_STATE_ESTABLISHED)
   \<and> map_option fst (hip_handle_r2 ext0 ctxB0) = Some 0
   \<and> (\<exists>ha'. hadb_entry (fst (snd (the (hip_handle_r2 ext0 ctxB0)))) = Some ha'
          \<and> state ha' = HIP_STATE_ESTABLISHED)"
proof -
  have 1: "hip_handle_i2 ext0 ctx0 = Some (0, snd (the (hip_handle_i2 ext0 ctx0)))"
    by (simp add: hip_handle_i2_def ctx0_def ha0_def msg0_def ext0_def Let_def out_err_def errnos)
  have 2: "hip_handle_r2 ext0 ctxB0 = Some (0, fst (snd (the (hip_handle_r2 ext0 ctxB0))),
             snd (snd (the (hip_handle_r2 ext0 ctxB0))))"
    by (simp add: hip_handle_r2_def ctxB0_def ctx0_def ha0_def msg0_def ext0_def Let_def errnos)
  have 3: "map_option fst (hip_handle_i2 ext0 ctx0) = Some 0" by (subst 1) simp
  have 4: "map_option fst (hip_handle_r2 ext0 ctxB0) = Some 0" by (subst 2) simp
  show ?thesis
    using i2_collision_smaller_hit_drops [of ctx0 ha0 ctxB0 "ha0\<lparr>hit_our := 1, hit_peer := 2\<rparr>"
        ext0 _ ctxB0, OF _ _ _ _ _ _ 1 _ 2] 3 4
    by (simp add: ctxB0_def ctx0_def ha0_def hip_hit_is_bigger_def)
qed

subsection \<open>HMAC verification\<close>

lemma payload_len_roundtrip:
  "ucast (drop_bit 3 ((ucast (pl :: 8 word) + 1) * 8 :: 16 word) - 1) = pl"
proof -
  define y :: "16 word" where "y = ucast pl + 1"
  define x :: "16 word" where "x = y * 8"
  have lt: "unat pl < 256" using unsigned_less[of pl, where 'a=nat] by simp
  have u0: "unat (ucast pl :: 16 word) = unat pl"
    using lt by (simp add: unsigned_ucast_eq take_bit_nat_eq_self)
  have u1: "unat y = unat pl + 1"
    unfolding y_def using lt u0 by (simp add: unat_word_ariths)
  have u2: "unat x = (unat pl + 1) * 8"
    unfolding x_def using lt u1 by (simp add: unat_word_ariths)
  have "unat (drop_bit 3 x) = drop_bit 3 (unat x)"
    by (rule unat_drop_bit_eq)
  also have "\<dots> = unat pl + 1"
    by (simp add: u2 drop_bit_eq_div)
  finally have "drop_bit 3 x = y"
    using u1 by (simp add: word_unat_eq_iff)
  moreover have "ucast (ucast pl :: 16 word) = pl"
    by (rule ucast_up_ucast_id) (simp add: is_up)
  ultimately have "ucast (drop_bit 3 x - 1) = pl" by (simp add: y_def)
  then show ?thesis by (simp add: x_def y_def)
qed

lemma set_total_len_restores:
  "hip_set_msg_total_len m (word_of_int (uint (hip_get_msg_total_len msg)))
     = m\<lparr>payload_len := payload_len msg\<rparr>"
  by (simp only: hip_set_msg_total_len_def hip_get_msg_total_len_def word_of_int_uint
      payload_len_roundtrip)

text \<open>What \<open>hip_verify_packet_hmac_general\<close> returns and leaves in the message: the message
  with the length field set to the offset of the HMAC parameter and the checksum zeroed when
  the HMAC does not verify; when it verifies, the message with its length field as it was and
  the checksum that the 8-bit local \<open>orig_checksum\<close> held.\<close>

lemma hip_verify_packet_hmac_general_cases:
  assumes "get_hmac_param msg t = Some hmac"
  shows "let truncated = msg\<lparr>checksum := 0,
                              payload_len := ucast (drop_bit 3 (of_nat (hmac_offset hmac) :: u16) - 1)\<rparr>;
             r = hip_verify_packet_hmac_general ext msg key t
         in if verify_hmac ext truncated (hip_get_msg_total_len truncated) (hmac_data hmac) key
                 HIP_DIGEST_SHA1_HMAC = 0
            then r = (0, msg\<lparr>checksum := ucast (ucast (checksum msg) :: u8)\<rparr>)
            else r = (- 1, truncated)"
proof -
  have t: "hip_set_msg_total_len (hip_zero_msg_checksum msg) (word_of_int (int (hmac_offset hmac)))
           = msg\<lparr>checksum := 0,
                  payload_len := ucast (drop_bit 3 (of_nat (hmac_offset hmac) :: u16) - 1)\<rparr>"
    by (simp add: hip_set_msg_total_len_def hip_zero_msg_checksum_def)
  have r: "hip_set_msg_checksum
             (hip_set_msg_total_len m (word_of_int (uint (hip_get_msg_total_len msg)))) c
           = m\<lparr>payload_len := payload_len msg, checksum := c\<rparr>" for m c
    by (simp only: set_total_len_restores hip_set_msg_checksum_def)
  show ?thesis
    using assms
    by (simp only: hip_verify_packet_hmac_general_def Let_def t r option.case
        hip_get_msg_checksum_def) simp
qed

text \<open>Claim C10. The function truncates the length field and zeroes the checksum before it
  verifies, and a failed verification returns -1 with the message left that way: a message of
  248 bytes with checksum 0x1234 whose HMAC parameter, at offset 200, does not verify comes
  back with length field 24 (200 bytes) and checksum 0. A successful verification writes the
  length back but not the checksum: the same message with an HMAC that verifies comes back
  with checksum 0x34, the low byte of 0x1234 that fits the \<open>uint8_t\<close> in which the checksum
  was saved.\<close>

theorem hmac_success_restores_checksum_low_byte:
  "checksum msg0 = 0x1234 \<and> payload_len msg0 = 30
   \<and> hip_verify_packet_hmac_general ext0 msg0 [] HIP_PARAM_HMAC = (0, msg0\<lparr>checksum := 0x34\<rparr>)
   \<and> hip_verify_packet_hmac_general ext0 msg0 [] HIP_PARAM_HMAC \<noteq> (0, msg0)
   \<and> checksum msg_bad_hmac = 0x1234 \<and> payload_len msg_bad_hmac = 30
   \<and> hip_verify_packet_hmac_general ext0 msg_bad_hmac [] HIP_PARAM_HMAC
       = (- 1, msg_bad_hmac\<lparr>checksum := 0, payload_len := 24\<rparr>)"
proof -
  have g: "hip_verify_packet_hmac_general ext0 msg0 [] HIP_PARAM_HMAC = (0, msg0\<lparr>checksum := 0x34\<rparr>)"
    using hip_verify_packet_hmac_general_cases [of msg0 HIP_PARAM_HMAC
        "\<lparr>hmac_offset = 200, hmac_data = replicate 20 7\<rparr>" ext0 "[]"]
    by (simp add: msg0_def get_hmac_param_def Let_def verify_hmac_def
        hip_write_hmac_def ext0_def HIP_DIGEST_SHA1_HMAC_def HIP_AH_SHA_LEN_def errnos)
  have b: "hip_verify_packet_hmac_general ext0 msg_bad_hmac [] HIP_PARAM_HMAC
       = (- 1, msg_bad_hmac\<lparr>checksum := 0, payload_len := 24\<rparr>)"
    using hip_verify_packet_hmac_general_cases [of msg_bad_hmac HIP_PARAM_HMAC
        "\<lparr>hmac_offset = 200, hmac_data = replicate 20 0\<rparr>" ext0 "[]"]
    by (simp add: msg_bad_hmac_def msg0_def get_hmac_param_def Let_def verify_hmac_def
        hip_write_hmac_def ext0_def HIP_DIGEST_SHA1_HMAC_def HIP_AH_SHA_LEN_def errnos)
  have n: "msg0\<lparr>checksum := 0x34\<rparr> \<noteq> msg0"
    by (simp add: msg0_def)
  have c: "checksum msg0 = 0x1234" "payload_len msg0 = 30"
    "checksum msg_bad_hmac = 0x1234" "payload_len msg_bad_hmac = 30"
    by (simp_all add: msg_bad_hmac_def msg0_def)
  from g b n c show ?thesis by simp
qed

subsection \<open>Diffie-Hellman group downgrade\<close>

lemma dh_scan_peer_eq:
  "dh_scan_peer g l pg = (if g \<in> set l then Some (if g = pg then 0 else - 1) else None)"
  by (induction l) auto

lemma dh_scan_ours_eq:
  "dh_scan_ours ours l pg =
     (case find (\<lambda>g. g \<in> set l) ours of None \<Rightarrow> - 1 | Some g \<Rightarrow> if g = pg then 0 else - 1)"
  by (induction ours) (auto simp: dh_scan_peer_eq)

lemma check_dh_downgrade_v2_eq:
  "check_dh_downgrade_v2 n pg l =
     (if find (\<lambda>g. g \<in> set (take n l)) HIP_DH_GROUP_LIST = Some pg then 0 else - 1)"
  by (auto simp: check_dh_downgrade_v2_def dh_scan_ours_eq split: option.splits)

lemma uint_eq_word: "(uint (a :: 8 word) = uint b) = (a = b)"
  by (simp add: word_uint_eq_iff)

lemma pkm_fixture_ok:
  "p_hip_transform m = Some tp \<Longrightarrow> p_esp_transform m = Some [1] \<Longrightarrow>
   p_esp_info m = Some \<lparr>old_spi = 0, new_spi = 0x1001, keymat_index = 72\<rparr> \<Longrightarrow>
   p_diffie_hellman m = Some d \<Longrightarrow>
   fst (produce_keying_material ext0 m ha I J) = 0"
  by (simp add: produce_keying_material_def ext0_def Let_def errnos split del: if_split)

lemma dh_fixture_ok:
  "hip_check_i2_dh \<lparr>pub_val = \<lparr>group_id = 3, pub_len = 192, public_value = [9]\<rparr>, pub_val2 = None\<rparr> = 0"
  by (simp add: hip_check_i2_dh_def hip_get_dh_size_def dhprime_len_def Let_def
      HIP_DH_GROUP_LIST_def HIP_DH_NIST_P_384_def HIP_DH_OAKLEY_15_def HIP_DH_OAKLEY_5_def)

lemma auth_fixture_ok:
  "p_hmac (input_msg c) = Some \<lparr>hmac_offset = 200, hmac_data = replicate 20 7\<rparr> \<Longrightarrow>
   p_hip_transform (input_msg c) = Some [1] \<Longrightarrow> p_encrypted (input_msg c) = None \<Longrightarrow>
   p_host_id (input_msg c) = Some \<lparr>tlv_type = 705, tlv_host_id = Some host_id0\<rparr> \<Longrightarrow>
   fst (hip_check_i2_auth ext0 c h) = 0"
  by (simp add: hip_check_i2_auth_def hip_check_i2_host_id_def hip_verify_packet_hmac_def
      hip_verify_packet_hmac_general_def verify_hmac_def hip_write_hmac_def get_hmac_param_def
      hip_set_msg_total_len_def hip_set_msg_checksum_def hip_zero_msg_checksum_def
      Let_def ext0_def HIP_DIGEST_SHA1_HMAC_def HIP_AH_SHA_LEN_def
      split: option.splits split del: if_split)

text \<open>Claim C2 as stated fails: a responder with the preference list P-384, modp-3072,
  modp-1536 receives a HIPv2 I2 whose DH group is modp-1536, although P-384 is the first match
  with the initiator's list (P-384, modp-1536), which the code's own downgrade test refuses.
  \<open>hip_check_i2\<close> accepts the I2.\<close>

theorem i2_downgraded_group_accepted_counterexample:
  "check_dh_downgrade_v2 6 3 [8, 3] = - 1
   \<and> p_diffie_hellman (input_msg ctx_v2) =
       Some \<lparr>pub_val = \<lparr>group_id = 3, pub_len = 192, public_value = [9]\<rparr>, pub_val2 = None\<rparr>
   \<and> fst (snd (snd (hip_check_i2_init ext0 ctx_v2))) = HIP_V2
   \<and> fst (hip_check_i2 ext0 ctx_v2) = 0"
proof -
  have a: "check_dh_downgrade_v2 6 3 [8, 3] = - 1"
    by (simp add: check_dh_downgrade_v2_def HIP_DH_GROUP_LIST_def HIP_DH_NIST_P_384_def
        HIP_DH_OAKLEY_15_def HIP_DH_OAKLEY_5_def)
  have b: "p_diffie_hellman (input_msg ctx_v2) =
       Some \<lparr>pub_val = \<lparr>group_id = 3, pub_len = 192, public_value = [9]\<rparr>, pub_val2 = None\<rparr>"
    by (simp add: ctx_v2_def ctx0_def msg0_def)
  have c: "hip_check_i2_init ext0 ctx_v2 =
      (0, ctx_v2\<lparr>hadb_entry := Some (ha0\<lparr>state := HIP_STATE_UNASSOCIATED, hip_version := 2,
                     hit_peer := 1, our_addr := 12, hit_our := 2\<rparr>)\<rparr>, 2, False,
       [Hadb_create_state, Hadb_insert_state (ha0\<lparr>state := HIP_STATE_UNASSOCIATED, hip_version := 2,
                     hit_peer := 1, our_addr := 12, hit_our := 2\<rparr>)])"
    by (simp add: hip_check_i2_init_def ctx_v2_def ctx0_def msg0_def ext0_def Let_def)
  have d: "fst (hip_check_i2 ext0 ctx_v2) = 0"
    unfolding hip_check_i2_def Let_def c
    by (simp add: ctx_v2_def ctx0_def msg0_def dh_fixture_ok pkm_fixture_ok auth_fixture_ok
        out_err_def split_def ext0_sel HIP_PACKET_CTRL_ANON_def split del: if_split)
  show ?thesis using a b c d by (simp add: HIP_V2_def)
qed

text \<open>Claim C2, amended: under HIPv2 the downgrade of the Diffie-Hellman group is detected by
  the initiator on receipt of R1: \<open>hip_check_r1\<close> fails with -EINVAL unless the group of the
  DIFFIE_HELLMAN parameter is the first group of the local preference list that also occurs in
  the DH_GROUP_LIST received. On receipt of I2 the responder checks only that the group is one
  of its own list and that the public value has the length of that group.\<close>

theorem dh_downgrade_detected_on_r1:
  "hip_check_r1_dh_group n ha msg =
     (if uint (hip_version ha) = HIP_V2 then
        (case p_dh_group_list msg of
           None \<Rightarrow> - ENOENT
         | Some l \<Rightarrow>
             (case p_diffie_hellman msg of
                None \<Rightarrow> - ENOENT
              | Some dh \<Rightarrow>
                  if find (\<lambda>g. g \<in> set (take n l)) HIP_DH_GROUP_LIST = Some (group_id (pub_val dh))
                  then 0 else - EINVAL))
      else 0)
   \<and> (hip_check_i2_dh dh' = 0) =
       (group_id (pub_val dh') \<in> set HIP_DH_GROUP_LIST
        \<and> hip_get_dh_size (group_id (pub_val dh')) = Some (pub_len (pub_val dh')))"
  by (auto simp: hip_check_r1_dh_group_def check_dh_downgrade_v2_eq hip_check_i2_dh_def Let_def
      list_ex_iff errnos uint_eq_word split: option.splits)

subsection \<open>Keying material\<close>

lemma draw_keys_slices:
  "draw_keys g km h m e a ha =
     (if g then
        ha\<lparr>hip_enc_out := keymat_slice km 0 h, hip_hmac_out := keymat_slice km h m,
           hip_enc_in := keymat_slice km (h + m) h, hip_hmac_in := keymat_slice km (h + m + h) m,
           esp_out := keymat_slice km (h + m + h + m) e, auth_out := keymat_slice km (h + m + h + m + e) a,
           esp_in := keymat_slice km (h + m + h + m + e + a) e,
           auth_in := keymat_slice km (h + m + h + m + e + a + e) a\<rparr>
      else
        ha\<lparr>hip_enc_in := keymat_slice km 0 h, hip_hmac_in := keymat_slice km h m,
           hip_enc_out := keymat_slice km (h + m) h, hip_hmac_out := keymat_slice km (h + m + h) m,
           esp_in := keymat_slice km (h + m + h + m) e, auth_in := keymat_slice km (h + m + h + m + e) a,
           esp_out := keymat_slice km (h + m + h + m + e + a) e,
           auth_out := keymat_slice km (h + m + h + m + e + a + e) a\<rparr>)"
  by (simp add: draw_keys_def hip_keymat_draw_and_copy_def keymat_slice_def add.assoc)

lemma keymat_block_sym: "keymat_block ext kij a b I J n = keymat_block ext kij b a I J n"
  by (auto simp: keymat_block_def hip_hit_is_bigger_def Let_def)

lemma hip_make_keymat_sym:
  "hip_make_keymat ext kij kl dl a b I J = hip_make_keymat ext kij kl dl b a I J"
proof -
  have "keymat_block ext (take kl kij) a b I J = keymat_block ext (take kl kij) b a I J"
    by (rule ext) (rule keymat_block_sym)
  then show ?thesis by (simp only: hip_make_keymat_def)
qed

text \<open>The keymat that a run of \<open>produce_keying_material\<close> draws from, and the four key
  lengths: as functions of what the run reads.\<close>

lemma produce_keying_material_keys:
  assumes "produce_keying_material ext msg ha I J = (0, ha')"
    and "p_hip_transform msg = Some tp" and "p_esp_transform msg = Some te"
    and "p_diffie_hellman msg = Some dhf"
    and "s = hip_calculate_shared_secret ext (group_id (hip_dh_select_key ext dhf))
               (public_value (hip_dh_select_key ext dhf)) (pub_len (hip_dh_select_key ext dhf))"
    and "h = hip_transform_key_length ext (hip_select_hip_transform ext tp)"
    and "m = hip_hmac_key_length ext (hip_select_esp_transform ext te)"
    and "e = hip_enc_key_length ext (hip_select_esp_transform ext te)"
    and "a = hip_auth_key_length_esp ext (hip_select_esp_transform ext te)"
    and "km = hip_make_keymat ext (snd s) (nat (fst s)) (round_up_sha (h + m + h + m + e + a + e + a))
                (hit_sender msg) (hit_receiver msg) I J"
    and "d = draw_keys (hip_hit_is_bigger (hit_receiver msg) (hit_sender msg)) km h m e a ha"
  shows "hip_enc_out ha' = hip_enc_out d \<and> hip_hmac_out ha' = hip_hmac_out d
         \<and> hip_enc_in ha' = hip_enc_in d \<and> hip_hmac_in ha' = hip_hmac_in d
         \<and> esp_out ha' = esp_out d \<and> auth_out ha' = auth_out d
         \<and> esp_in ha' = esp_in d \<and> auth_in ha' = auth_in d"
  using assms
  unfolding produce_keying_material_def Let_def
  by (auto split: option.splits if_splits simp: EINVAL_def ENOMEM_def ENOENT_def)

text \<open>Claim C5: the eight keys of the base exchange are the consecutive slices of the
  keymat, in the order HIP-enc-gL, HIP-HMAC-gL, HIP-enc-Lg, HIP-HMAC-Lg, ESP-enc-gL, ESP-auth-gL,
  ESP-enc-Lg, ESP-auth-Lg. The host whose own HIT is the greater one (A) stores the gL keys as
  its outbound keys, its peer (B) stores them as its inbound keys, so with the same DH secret,
  HITs, I and J and the same selected transforms, the keys of one host are byte for byte the
  keys of the other, outbound matching inbound.\<close>

theorem keymat_fixed_order_and_symmetry:
  assumes A: "produce_keying_material ext msgA haA I J = (0, haA')"
    and B: "produce_keying_material ext msgB haB I J = (0, haB')"
    and hits: "hit_receiver msgA = hit_sender msgB" "hit_sender msgA = hit_receiver msgB"
    and g: "hip_hit_is_bigger (hit_receiver msgA) (hit_sender msgA)"
    and tp: "p_hip_transform msgA = Some tpA" "p_hip_transform msgB = Some tpB"
            "hip_select_hip_transform ext tpA = hip_select_hip_transform ext tpB"
    and te: "p_esp_transform msgA = Some teA" "p_esp_transform msgB = Some teB"
            "hip_select_esp_transform ext teA = hip_select_esp_transform ext teB"
    and dh: "p_diffie_hellman msgA = Some dA" "p_diffie_hellman msgB = Some dB"
            "hip_calculate_shared_secret ext (group_id (hip_dh_select_key ext dA))
               (public_value (hip_dh_select_key ext dA)) (pub_len (hip_dh_select_key ext dA)) = s"
            "hip_calculate_shared_secret ext (group_id (hip_dh_select_key ext dB))
               (public_value (hip_dh_select_key ext dB)) (pub_len (hip_dh_select_key ext dB)) = s"
    and len: "h = hip_transform_key_length ext (hip_select_hip_transform ext tpA)"
             "m = hip_hmac_key_length ext (hip_select_esp_transform ext teA)"
             "e = hip_enc_key_length ext (hip_select_esp_transform ext teA)"
             "a = hip_auth_key_length_esp ext (hip_select_esp_transform ext teA)"
    and km: "km = hip_make_keymat ext (snd s) (nat (fst s))
                    (round_up_sha (h + m + h + m + e + a + e + a))
                    (hit_receiver msgA) (hit_sender msgA) I J"
  shows "hip_enc_out haA' = keymat_slice km 0 h \<and> hip_enc_in haB' = keymat_slice km 0 h
       \<and> hip_hmac_out haA' = keymat_slice km h m \<and> hip_hmac_in haB' = keymat_slice km h m
       \<and> hip_enc_in haA' = keymat_slice km (h + m) h \<and> hip_enc_out haB' = keymat_slice km (h + m) h
       \<and> hip_hmac_in haA' = keymat_slice km (h + m + h) m
       \<and> hip_hmac_out haB' = keymat_slice km (h + m + h) m
       \<and> esp_out haA' = keymat_slice km (h + m + h + m) e
       \<and> esp_in haB' = keymat_slice km (h + m + h + m) e
       \<and> auth_out haA' = keymat_slice km (h + m + h + m + e) a
       \<and> auth_in haB' = keymat_slice km (h + m + h + m + e) a
       \<and> esp_in haA' = keymat_slice km (h + m + h + m + e + a) e
       \<and> esp_out haB' = keymat_slice km (h + m + h + m + e + a) e
       \<and> auth_in haA' = keymat_slice km (h + m + h + m + e + a + e) a
       \<and> auth_out haB' = keymat_slice km (h + m + h + m + e + a + e) a"
proof -
  have nb: "\<not> hip_hit_is_bigger (hit_receiver msgB) (hit_sender msgB)"
    using g hits by (auto simp: hip_hit_is_bigger_def)
  have kmA: "km = hip_make_keymat ext (snd s) (nat (fst s))
                    (round_up_sha (h + m + h + m + e + a + e + a))
                    (hit_sender msgA) (hit_receiver msgA) I J"
    unfolding km by (rule hip_make_keymat_sym)
  have kmB: "km = hip_make_keymat ext (snd s) (nat (fst s))
                    (round_up_sha (h + m + h + m + e + a + e + a))
                    (hit_sender msgB) (hit_receiver msgB) I J"
    unfolding km using hits by simp
  note ka = produce_keying_material_keys [OF A tp(1) te(1) dh(1) dh(3)[symmetric] len kmA refl]
  have lenB: "h = hip_transform_key_length ext (hip_select_hip_transform ext tpB)"
             "m = hip_hmac_key_length ext (hip_select_esp_transform ext teB)"
             "e = hip_enc_key_length ext (hip_select_esp_transform ext teB)"
             "a = hip_auth_key_length_esp ext (hip_select_esp_transform ext teB)"
    using len tp(3) te(3) by simp_all
  note kb = produce_keying_material_keys [OF B tp(2) te(2) dh(2) dh(4)[symmetric] lenB kmB refl]
  show ?thesis
    using ka kb g nb by (simp add: draw_keys_slices)
qed

text \<open>The two hosts with HITs 2 and 1, key lengths 16, 20, 16 and 20: both runs succeed and
  the keys agree.\<close>

theorem keymat_fixed_order_and_symmetry_witness:
  "hip_hit_is_bigger (hit_receiver msg0) (hit_sender msg0)
   \<and> fst (produce_keying_material ext0 msg0 ha0 [1, 2] [3, 4]) = 0
   \<and> fst (produce_keying_material ext0 msgB0 (ha0\<lparr>hit_our := 1, hit_peer := 2\<rparr>) [1, 2] [3, 4]) = 0
   \<and> hip_enc_out (snd (produce_keying_material ext0 msg0 ha0 [1, 2] [3, 4]))
       = hip_enc_in (snd (produce_keying_material ext0 msgB0 (ha0\<lparr>hit_our := 1, hit_peer := 2\<rparr>)
                            [1, 2] [3, 4]))
   \<and> auth_in (snd (produce_keying_material ext0 msg0 ha0 [1, 2] [3, 4]))
       = auth_out (snd (produce_keying_material ext0 msgB0 (ha0\<lparr>hit_our := 1, hit_peer := 2\<rparr>)
                            [1, 2] [3, 4]))
   \<and> length (auth_in (snd (produce_keying_material ext0 msg0 ha0 [1, 2] [3, 4]))) = 20"
proof -
  let ?ra = "produce_keying_material ext0 msg0 ha0 [1, 2] [3, 4]"
  let ?rb = "produce_keying_material ext0 msgB0 (ha0\<lparr>hit_our := 1, hit_peer := 2\<rparr>) [1, 2] [3, 4]"
  have fa: "fst ?ra = 0" by (rule pkm_fixture_ok) (simp_all add: msg0_def)
  have fb: "fst ?rb = 0" by (rule pkm_fixture_ok) (simp_all add: msgB0_def msg0_def)
  have A: "?ra = (0, snd ?ra)" using fa by (simp add: prod_eq_iff)
  have B: "?rb = (0, snd ?rb)" using fb by (simp add: prod_eq_iff)
  have g: "hip_hit_is_bigger (hit_receiver msg0) (hit_sender msg0)"
    by (simp add: msg0_def hip_hit_is_bigger_def)
  have h1: "hit_receiver msg0 = hit_sender msgB0" "hit_sender msg0 = hit_receiver msgB0"
    by (simp_all add: msg0_def msgB0_def)
  have p: "p_hip_transform msg0 = Some [1]" "p_hip_transform msgB0 = Some [1, 2]"
    "p_esp_transform msg0 = Some [1]" "p_esp_transform msgB0 = Some [1]"
    "p_diffie_hellman msg0 = Some \<lparr>pub_val = \<lparr>group_id = 3, pub_len = 192, public_value = [9]\<rparr>,
                                      pub_val2 = None\<rparr>"
    "p_diffie_hellman msgB0 = Some \<lparr>pub_val = \<lparr>group_id = 3, pub_len = 192, public_value = [9]\<rparr>,
                                      pub_val2 = None\<rparr>"
    by (simp_all add: msg0_def msgB0_def)
  have o: "hip_select_hip_transform ext0 [1] = hip_select_hip_transform ext0 [1, 2]"
    "hip_select_esp_transform ext0 [1] = hip_select_esp_transform ext0 [1]"
    "hip_calculate_shared_secret ext0 g' v l' = (4, [1, 2, 3, 4])"
    "hip_transform_key_length ext0 x = 16" "hip_hmac_key_length ext0 x = 20"
    "hip_enc_key_length ext0 x = 16" "hip_auth_key_length_esp ext0 x = 20" for g' v l' x
    by (simp_all add: ext0_def)
  note t = keymat_fixed_order_and_symmetry [OF A B h1 g p(1,2) o(1) p(3,4) o(2) p(5,6) o(3) o(3)
      o(4)[symmetric] o(5)[symmetric] o(6)[symmetric] o(7)[symmetric] refl]
  have l: "length (keymat_slice (hip_make_keymat ext0 (snd (4 :: int, [1, 2, 3, 4])) (nat (fst (4 :: int, [1, 2, 3, 4 :: u8])))
              (round_up_sha (16 + 20 + 16 + 20 + 16 + 20 + 16 + 20))
              (hit_receiver msg0) (hit_sender msg0) [1, 2] [3, 4]) (16 + 20 + 16 + 20 + 16 + 20 + 16) 20) = 20"
    by (simp add: keymat_slice_def hip_make_keymat_def round_up_sha_def HIP_AH_SHA_LEN_def
        keymat_block_def ext0_def Let_def upt_rec)
  show ?thesis
    using t fa fb g l by simp
qed

subsection \<open>Retransmitted I2\<close>

















section \<open>Properties of the userspace ESP\<close>

lemma buf_read_write_at: "n \<le> length d \<Longrightarrow> buf_read (buf_write b off d) off n = take n d"
  by (simp add: buf_read_def buf_write_def)

lemma buf_read_write_before: "buf_read (buf_write b off d) 0 off = buf_read b 0 off"
  by (simp add: buf_read_def buf_write_def)

lemma esp_iv_len_cases: "esp_iv_len entry = Inr iv_len \<Longrightarrow> iv_len = 0 \<or> iv_len = 8 \<or> iv_len = 16"
  by (auto simp: esp_iv_len_def AES_BLOCK_SIZE_def split: if_splits)

lemma unat_of_nat_u16: "k < 65536 \<Longrightarrow> unat (of_nat k :: 16 word) = k"
  by (simp add: unat_of_nat)

lemma unat_esp_pad_len:
  assumes "iv_len = 0 \<or> iv_len = 8 \<or> iv_len = 16"
  shows "unat (esp_pad_len iv_len elen) =
     (if iv_len > 0 then iv_len - (unat elen + 2) mod iv_len else 4 - (unat elen + 2) mod 4)"
proof -
  have "iv_len - (unat elen + 2) mod iv_len < 65536" using assms by auto
  moreover have "4 - (unat elen + 2) mod 4 < 65536" by simp
  ultimately show ?thesis
    unfolding esp_pad_len_def sizeof_hip_esp_tail_def
    by (simp only: unat_of_nat_u16 if_distrib[of unat] cong: if_cong)
qed

lemma pad_aligns:
  "0 < b \<Longrightarrow> b dvd (x + (b - (x + 2) mod b) + 2)" for b x :: nat
proof -
  assume b: "0 < b"
  have "(x + 2) mod b < b" using b by simp
  then have "x + (b - (x + 2) mod b) + 2 = ((x + 2) - (x + 2) mod b) + b"
    using mod_less_eq_dividend[of "x + 2" b] by linarith
  also have "\<dots> = ((x + 2) div b) * b + b"
    by (simp add: minus_mod_eq_div_mult)
  finally show ?thesis by simp
qed

text \<open>Claim C9: the pad length that \<open>payload_encrypt\<close> chooses makes payload, padding
  and ESP tail together a multiple of the IV length for the block ciphers (16 for AES, 8 for
  3DES and Blowfish) and a multiple of 4 for NULL encryption; it is at least 1 and at most one
  block; the pad bytes written behind the payload are 1, 2, ..., pad_len in this order,
  followed by the tail with the pad length and the next header; the payload is not touched.\<close>

theorem esp_padding_aligns_payload:
  assumes "esp_iv_len entry = Inr iv_len"
  shows "let r = payload_encrypt ce ext inb in_type in_len out out_len entry;
             pad_len = unat (esp_pad_len iv_len in_len);
             block = (if iv_len > 0 then iv_len else 4)
         in block dvd (unat in_len + pad_len + sizeof_hip_esp_tail)
            \<and> 1 \<le> pad_len \<and> pad_len \<le> block
            \<and> buf_read (enc_in r) (unat in_len) pad_len = map of_nat [1..<Suc pad_len]
            \<and> buf_read (enc_in r) (unat in_len + pad_len) sizeof_hip_esp_tail
                = [of_nat pad_len, in_type]
            \<and> buf_read (enc_in r) 0 (unat in_len) = buf_read inb 0 (unat in_len)
            \<and> (iv_len = (if ealg entry = HIP_ESP_AES_SHA1 then 16
                          else if ealg entry = HIP_ESP_NULL_SHA1 \<or> ealg entry = HIP_ESP_NULL_MD5
                          then 0 else 8))"
proof -
  have c: "iv_len = 0 \<or> iv_len = 8 \<or> iv_len = 16"
    using assms by (rule esp_iv_len_cases)
  note u = unat_esp_pad_len [OF c, of in_len]
  define pad_len where "pad_len = unat (esp_pad_len iv_len in_len)"
  define block where "block = (if iv_len > 0 then iv_len else 4)"
  have bp: "0 < block" using c by (auto simp: block_def)
  have pl: "pad_len = block - (unat in_len + 2) mod block"
    using u by (simp add: pad_len_def block_def)
  have d: "block dvd (unat in_len + pad_len + sizeof_hip_esp_tail)"
    unfolding pl sizeof_hip_esp_tail_def using pad_aligns [OF bp] by simp
  have lt: "(unat in_len + 2) mod block < block" using bp by simp
  have b1: "1 \<le> pad_len" "pad_len \<le> block" using lt by (simp_all add: pl)
  have in1: "enc_in (payload_encrypt ce ext inb in_type in_len out out_len entry)
             = buf_write inb (unat in_len) (esp_padding (esp_pad_len iv_len in_len) in_type)"
    using assms by (simp add: payload_encrypt_def Let_def split: option.splits)
  have "map (\<lambda>i. (of_nat (i + 1) :: u8)) [0..<pad_len] = map of_nat (map Suc [0..<pad_len])"
    by (simp only: map_map comp_def Suc_eq_plus1)
  then have m: "map (\<lambda>i. (of_nat (i + 1) :: u8)) [0..<pad_len] = map of_nat [1..<Suc pad_len]"
    by (simp only: map_Suc_upt One_nat_def)
  have uc: "(ucast (esp_pad_len iv_len in_len) :: u8) = of_nat pad_len"
    by (simp add: pad_len_def)
  have e: "esp_padding (esp_pad_len iv_len in_len) in_type
           = map of_nat [1..<Suc pad_len] @ [of_nat pad_len, in_type]"
    by (simp only: esp_padding_def pad_len_def[symmetric] m uc)
  have p1: "buf_read (buf_write inb (unat in_len) (esp_padding (esp_pad_len iv_len in_len) in_type))
              (unat in_len) pad_len = map of_nat [1..<Suc pad_len]"
    unfolding e by (subst buf_read_write_at) simp_all
  have p2: "buf_read (buf_write inb (unat in_len) (esp_padding (esp_pad_len iv_len in_len) in_type))
              (unat in_len + pad_len) sizeof_hip_esp_tail = [of_nat pad_len, in_type]"
    unfolding e by (simp add: buf_read_def buf_write_def sizeof_hip_esp_tail_def)
  have p3: "buf_read (buf_write inb (unat in_len) (esp_padding (esp_pad_len iv_len in_len) in_type))
              0 (unat in_len) = buf_read inb 0 (unat in_len)"
    by (rule buf_read_write_before)
  have iv: "iv_len = (if ealg entry = HIP_ESP_AES_SHA1 then 16
                          else if ealg entry = HIP_ESP_NULL_SHA1 \<or> ealg entry = HIP_ESP_NULL_MD5
                          then 0 else 8)"
    using assms
    by (auto simp: esp_iv_len_def AES_BLOCK_SIZE_def HIP_ESP_AES_SHA1_def HIP_ESP_NULL_SHA1_def
        HIP_ESP_NULL_MD5_def HIP_ESP_3DES_SHA1_def HIP_ESP_3DES_MD5_def HIP_ESP_BLOWFISH_SHA1_def
        split: if_splits)
  show ?thesis
    unfolding Let_def in1 pad_len_def[symmetric] block_def[symmetric]
    using d b1 p1 p2 p3 iv by simp
qed


text \<open>A payload of 5 bytes under AES: 9 bytes of padding, 16 bytes in all.\<close>

theorem esp_padding_aligns_payload_witness:
  "esp_iv_len sa_aes = Inr 16 \<and> unat (esp_pad_len 16 5) = 9 \<and> (16 :: nat) dvd 5 + 9 + 2
   \<and> buf_read (enc_in (payload_encrypt ce0 ext0 [1, 2, 3, 4, 5] 6 5 (replicate 8 0xEE) 8 sa_aes)) 5 9
       = [1, 2, 3, 4, 5, 6, 7, 8, 9]
   \<and> buf_read (enc_in (payload_encrypt ce0 ext0 [1, 2, 3, 4, 5] 6 5 (replicate 8 0xEE) 8 sa_aes)) 14 2
       = [9, 6]"
proof -
  have i: "esp_iv_len sa_aes = Inr 16"
    by (simp add: esp_iv_len_def sa_aes_def AES_BLOCK_SIZE_def HIP_ESP_AES_SHA1_def
        HIP_ESP_3DES_SHA1_def HIP_ESP_3DES_MD5_def HIP_ESP_BLOWFISH_SHA1_def
        HIP_ESP_NULL_SHA1_def HIP_ESP_NULL_MD5_def)
  have p: "unat (esp_pad_len 16 5) = 9"
    by (simp add: esp_pad_len_def sizeof_hip_esp_tail_def)
  have u: "map (of_nat :: nat \<Rightarrow> u8) [Suc 0..<9] = [1, 2, 3, 4, 5, 6, 7, 8]"
    by (simp add: upt_rec)
  show ?thesis
    using esp_padding_aligns_payload [OF i, of ce0 ext0 "[1, 2, 3, 4, 5]" 6 5 "replicate 8 0xEE" 8]
    by (simp add: Let_def i p u sizeof_hip_esp_tail_def)
qed











section \<open>Properties of the connection tracker\<close>

lemmas tfm_defs = ESP_PROT_TFM_UNUSED_def ESP_PROT_TFM_PLAIN_def ESP_PROT_TFM_PARALLEL_def
  ESP_PROT_TFM_CUMULATIVE_def ESP_PROT_TFM_PARA_CUMUL_def ESP_PROT_TFM_TREE_def


subsection \<open>The window of the ESP tokens\<close>












subsection \<open>The acknowledgement of an anchor update\<close>

lemma find_index_from_Some:
  "find_index_from P xs n = Some k \<Longrightarrow> n \<le> k \<and> k - n < length xs \<and> P (xs ! (k - n))"
proof (induction xs arbitrary: n)
  case Nil
  then show ?case by simp
next
  case (Cons x xs)
  show ?case
  proof (cases "P x")
    case True
    with Cons.prems show ?thesis by simp
  next
    case False
    with Cons.prems have "find_index_from P xs (Suc n) = Some k" by simp
    from Cons.IH [OF this] have "Suc n \<le> k" "k - Suc n < length xs" "P (xs ! (k - Suc n))"
      by simp_all
    moreover from \<open>Suc n \<le> k\<close> have "k - n = Suc (k - Suc n)" by simp
    ultimately show ?thesis by simp
  qed
qed

lemma find_first_Some:
  "find_first P xs = Some k \<Longrightarrow> k < length xs \<and> P (xs ! k)"
  using find_index_from_Some [of P xs 0 k] by (simp add: find_first_def)

lemma update_anchor_step_frame:
  assumes "update_anchor_step hl item i et = Some et'"
  shows "active_anchors et' = active_anchors et"
    and "first_active_anchors et' = first_active_anchors et"
    and "anchor_cache et' = anchor_cache et"
    and "num_hchains et' = num_hchains et"
    and "j \<noteq> i \<Longrightarrow> next_anchors et' j = next_anchors et j"
  using assms
  by (auto simp: update_anchor_step_def Let_def split: option.splits if_splits)

lemma update_anchor_step_next:
  assumes "update_anchor_step hl item i et = Some et'"
  shows "if (\<exists>act. ai_active_anchors item i = Some act \<and> memcmp_eq (first_active_anchors et i) act hl)
         then Some (next_anchors et' i)
                = map_option (\<lambda>nxt. memcpy (next_anchors et i) nxt hl) (ai_next_anchors item i)
         else next_anchors et' i = next_anchors et i"
  using assms
  by (auto simp: update_anchor_step_def Let_def split: option.splits if_splits)

lemma update_anchor_loop_frame:
  "update_anchor_loop hl item is et = Some et' \<Longrightarrow>
   active_anchors et' = active_anchors et
   \<and> first_active_anchors et' = first_active_anchors et
   \<and> anchor_cache et' = anchor_cache et
   \<and> num_hchains et' = num_hchains et
   \<and> (\<forall>j. j \<notin> set is \<longrightarrow> next_anchors et' j = next_anchors et j)"
proof (induction "is" arbitrary: et)
  case Nil
  then show ?case by simp
next
  case (Cons i "is")
  from Cons.prems obtain et1 where
    s: "update_anchor_step hl item i et = Some et1" and
    l: "update_anchor_loop hl item is et1 = Some et'"
    by (auto split: option.splits)
  from Cons.IH [OF l] update_anchor_step_frame [OF s] show ?case by simp
qed

lemma update_anchor_loop_next:
  "update_anchor_loop hl item is et = Some et' \<Longrightarrow> distinct is \<Longrightarrow> i \<in> set is \<Longrightarrow>
   (if (\<exists>act. ai_active_anchors item i = Some act \<and> memcmp_eq (first_active_anchors et i) act hl)
    then Some (next_anchors et' i)
           = map_option (\<lambda>nxt. memcpy (next_anchors et i) nxt hl) (ai_next_anchors item i)
    else next_anchors et' i = next_anchors et i)"
proof (induction "is" arbitrary: et)
  case Nil
  then show ?case by simp
next
  case (Cons k "is")
  from Cons.prems(1) obtain et1 where
    s: "update_anchor_step hl item k et = Some et1" and
    l: "update_anchor_loop hl item is et1 = Some et'"
    by (auto split: option.splits)
  show ?case
  proof (cases "i = k")
    case True
    with Cons.prems(2) have "i \<notin> set is" by simp
    with update_anchor_loop_frame [OF l] have "next_anchors et' i = next_anchors et1 i" by simp
    with update_anchor_step_next [OF s] True show ?thesis by simp
  next
    case False
    with Cons.prems have "distinct is" "i \<in> set is" by simp_all
    from Cons.IH [OF l this] update_anchor_step_frame [OF s] False show ?thesis by simp
  qed
qed

lemmas tracker_fixture_defs = item0_def et_pending_def conn0_def ack0_def esp_info0_def update0_def

lemma update_anchor_fixture:
  "esp_prot_conntrack_update_anchor g0 conn0 Original (Some ack0) (Some esp_info0)
     = Some (0, conn0\<lparr>reply := (reply conn0)
                  \<lparr>esp_tuples := [et0\<lparr>next_anchors := (next_anchors et0)(0 := [0xAA, 0xAA])\<rparr>]\<rparr>\<rparr>)"
  by (simp add: esp_prot_conntrack_update_anchor_def Let_def tracker_fixture_defs g0_def et0_def
      get_tuple_def set_tuple_def ORIGINAL_DIR_def REPLY_DIR_def find_esp_tuple_def find_first_def
      esp_prot_conntrack_resolve_transform_def tfm_defs update_anchor_step_def memcmp_eq_def
      memcpy_def hip_ll_del_def)

lemma update_anchor_step_total:
  "ai_active_anchors item i = Some act \<Longrightarrow>
   (memcmp_eq (first_active_anchors et i) act hl \<longrightarrow> ai_next_anchors item i \<noteq> None) \<Longrightarrow>
   update_anchor_step hl item i et \<noteq> None"
  by (auto simp: update_anchor_step_def Let_def split: option.splits)

lemma update_anchor_loop_total:
  "\<forall>i \<in> set is. \<exists>act. ai_active_anchors item i = Some act
       \<and> (memcmp_eq (first_active_anchors et i) act hl \<longrightarrow> ai_next_anchors item i \<noteq> None) \<Longrightarrow>
   update_anchor_loop hl item is et \<noteq> None"
proof (induction "is" arbitrary: et)
  case Nil
  then show ?case by simp
next
  case (Cons i "is")
  from Cons.prems obtain act where a: "ai_active_anchors item i = Some act"
    and n: "memcmp_eq (first_active_anchors et i) act hl \<longrightarrow> ai_next_anchors item i \<noteq> None"
    by auto
  from update_anchor_step_total [OF a n] obtain et1 where
    s: "update_anchor_step hl item i et = Some et1" by blast
  from update_anchor_step_frame(2) [OF s] Cons.prems
  have "\<forall>i \<in> set is. \<exists>act. ai_active_anchors item i = Some act
       \<and> (memcmp_eq (first_active_anchors et1 i) act hl \<longrightarrow> ai_next_anchors item i \<noteq> None)"
    by simp
  from Cons.IH [OF this] s show ?case by simp
qed

text \<open>Claim C1, as the code has it. When the ACK matches a cached item that holds an active
  anchor for every chain of the ESP tuple, and a next anchor for every chain whose first active
  anchor equals the active anchor cached, \<open>esp_prot_conntrack_update_anchor\<close> returns 0 and
  leaves the active and first active anchors of the ESP tuple as they are. For every such chain
  the cached next anchor is copied into the next anchor of the ESP tuple; the other chains keep
  their next anchor. The item is removed from the cache, which gets shorter by one.\<close>

theorem ack_installs_next_anchor:
  assumes other: "other = (if direction (get_tuple conn sd) = ORIGINAL_DIR then Reply else Original)"
    and tuple: "find_esp_tuple (esp_tuples (get_tuple conn other)) (old_spi esp_info) = Some k"
    and et: "et = esp_tuples (get_tuple conn other) ! k"
    and cached: "find_first (\<lambda>item. ai_seq item = peer_update_id ack) (anchor_cache et) = Some n"
    and item: "item = anchor_cache et ! n"
    and tfm: "esp_prot_conntrack_resolve_transform g (esp_prot_tfm et) = Some conntrack_tfm"
    and anchors: "\<forall>i < nat (num_hchains et). \<exists>act. ai_active_anchors item i = Some act
            \<and> (memcmp_eq (first_active_anchors et i) act (hash_length conntrack_tfm)
                 \<longrightarrow> ai_next_anchors item i \<noteq> None)"
  shows "\<exists>conn' et'.
         esp_prot_conntrack_update_anchor g conn sd (Some ack) (Some esp_info) = Some (0, conn')
       \<and> et' = esp_tuples (get_tuple conn' other) ! k
       \<and> ai_seq item = peer_update_id ack
       \<and> active_anchors et' = active_anchors et
       \<and> first_active_anchors et' = first_active_anchors et
       \<and> anchor_cache et' = hip_ll_del (anchor_cache et) n
       \<and> Suc (length (anchor_cache et')) = length (anchor_cache et)
       \<and> (\<forall>i < nat (num_hchains et).
            if (\<exists>act. ai_active_anchors item i = Some act
                      \<and> memcmp_eq (first_active_anchors et i) act (hash_length conntrack_tfm))
            then Some (next_anchors et' i)
                   = map_option (\<lambda>nxt. memcpy (next_anchors et i) nxt (hash_length conntrack_tfm))
                       (ai_next_anchors item i)
            else next_anchors et' i = next_anchors et i)"
proof -
  define hl where "hl = hash_length conntrack_tfm"
  define et1 where "et1 = et\<lparr>hash_item_length := ai_hash_item_length item\<rparr>"
  define ot where "ot = get_tuple conn other"
  from tuple have "find_first (\<lambda>et. spi et = old_spi esp_info) (esp_tuples ot) = Some k"
    by (simp add: find_esp_tuple_def ot_def)
  from find_first_Some [OF this] have k: "k < length (esp_tuples ot)" by simp
  from find_first_Some [OF cached] have n: "n < length (anchor_cache et)"
    and sq: "ai_seq item = peer_update_id ack" by (simp_all add: item)
  have unfold: "esp_prot_conntrack_update_anchor g conn sd (Some ack) (Some esp_info) =
      (case update_anchor_loop hl item [0..<nat (num_hchains et1)] et1 of
         None \<Rightarrow> None
       | Some et2 \<Rightarrow>
           Some (0, set_tuple conn other
                      (ot\<lparr>esp_tuples := (esp_tuples ot)
                             [k := et2\<lparr>anchor_cache := hip_ll_del (anchor_cache et2) n\<rparr>]\<rparr>)))"
    using tuple cached tfm
    by (simp add: esp_prot_conntrack_update_anchor_def Let_def other [symmetric] et [symmetric]
        item [symmetric] hl_def et1_def ot_def split: option.splits)
  from anchors have "\<forall>i \<in> set [0..<nat (num_hchains et1)]. \<exists>act. ai_active_anchors item i = Some act
       \<and> (memcmp_eq (first_active_anchors et1 i) act hl \<longrightarrow> ai_next_anchors item i \<noteq> None)"
    by (simp add: et1_def hl_def)
  from update_anchor_loop_total [OF this] obtain et2 where
    l: "update_anchor_loop hl item [0..<nat (num_hchains et1)] et1 = Some et2" by blast
  define conn' where "conn' = set_tuple conn other
                  (ot\<lparr>esp_tuples := (esp_tuples ot)
                         [k := et2\<lparr>anchor_cache := hip_ll_del (anchor_cache et2) n\<rparr>]\<rparr>)"
  define et' where "et' = esp_tuples (get_tuple conn' other) ! k"
  have res: "esp_prot_conntrack_update_anchor g conn sd (Some ack) (Some esp_info) = Some (0, conn')"
    by (simp add: unfold l conn'_def)
  have gs: "get_tuple (set_tuple conn other t) other = t" for t
    by (cases other) (simp_all add: get_tuple_def set_tuple_def)
  from k have e: "et' = et2\<lparr>anchor_cache := hip_ll_del (anchor_cache et2) n\<rparr>"
    by (simp add: et'_def conn'_def gs)
  from update_anchor_loop_frame [OF l] have f:
    "active_anchors et2 = active_anchors et" "first_active_anchors et2 = first_active_anchors et"
    "anchor_cache et2 = anchor_cache et"
    by (simp_all add: et1_def)
  have nx: "if (\<exists>act. ai_active_anchors item i = Some act
                      \<and> memcmp_eq (first_active_anchors et i) act hl)
            then Some (next_anchors et' i)
                   = map_option (\<lambda>nxt. memcpy (next_anchors et i) nxt hl) (ai_next_anchors item i)
            else next_anchors et' i = next_anchors et i"
    if "i < nat (num_hchains et)" for i
  proof -
    from that have "i \<in> set [0..<nat (num_hchains et1)]" by (simp add: et1_def)
    from update_anchor_loop_next [OF l _ this] show ?thesis by (simp add: et1_def e)
  qed
  from n have len: "Suc (length (hip_ll_del (anchor_cache et) n)) = length (anchor_cache et)"
    by (simp add: hip_ll_del_def)
  from nx have nxa: "\<forall>i < nat (num_hchains et).
            if (\<exists>act. ai_active_anchors item i = Some act
                      \<and> memcmp_eq (first_active_anchors et i) act (hash_length conntrack_tfm))
            then Some (next_anchors et' i)
                   = map_option (\<lambda>nxt. memcpy (next_anchors et i) nxt (hash_length conntrack_tfm))
                       (ai_next_anchors item i)
            else next_anchors et' i = next_anchors et i"
    unfolding hl_def by blast
  from sq e f len have "ai_seq item = peer_update_id ack
       \<and> active_anchors et' = active_anchors et
       \<and> first_active_anchors et' = first_active_anchors et
       \<and> anchor_cache et' = hip_ll_del (anchor_cache et) n
       \<and> Suc (length (anchor_cache et')) = length (anchor_cache et)"
    by simp
  with nxa res et'_def show ?thesis by blast
qed

text \<open>After the matching ACK the active anchor of the ESP tuple is still the old one; the
  anchor of the cached item sits in the next anchor.\<close>

theorem ack_leaves_active_anchor_counterexample:
  "anchor_cache (esp_tuples (reply conn0) ! 0) = [item0]
   \<and> ai_seq item0 = peer_update_id ack0
   \<and> ai_next_anchors item0 0 = Some [0xAA, 0xAA]
   \<and> active_anchors (esp_tuples (reply conn0) ! 0) 0 = [1, 1]
   \<and> esp_prot_conntrack_update_anchor g0 conn0 Original (Some ack0) (Some esp_info0)
       = Some (0, conn0\<lparr>reply := (reply conn0)
                    \<lparr>esp_tuples := [et0\<lparr>next_anchors := (next_anchors et0)(0 := [0xAA, 0xAA])\<rparr>]\<rparr>\<rparr>)
   \<and> active_anchors (et0\<lparr>next_anchors := (next_anchors et0)(0 := [0xAA, 0xAA])\<rparr>) 0 = [1, 1]"
  by (simp add: update_anchor_fixture) (simp add: tracker_fixture_defs et0_def)

theorem ack_installs_next_anchor_witness:
  "find_esp_tuple (esp_tuples (get_tuple conn0 Reply)) (old_spi esp_info0) = Some 0
   \<and> find_first (\<lambda>item. ai_seq item = peer_update_id ack0) (anchor_cache et_pending) = Some 0
   \<and> esp_prot_conntrack_resolve_transform g0 (esp_prot_tfm et_pending)
       = Some \<lparr>hash_length = 2, is_used = 1\<rparr>
   \<and> num_hchains et_pending = 1
   \<and> ai_active_anchors item0 0 = Some [1, 1]
   \<and> ai_next_anchors item0 0 = Some [0xAA, 0xAA]
   \<and> esp_prot_conntrack_update_anchor g0 conn0 Original (Some ack0) (Some esp_info0)
       = Some (0, conn0\<lparr>reply := (reply conn0)
                    \<lparr>esp_tuples := [et0\<lparr>next_anchors := (next_anchors et0)(0 := [0xAA, 0xAA])\<rparr>]\<rparr>\<rparr>)
   \<and> active_anchors (et0\<lparr>next_anchors := (next_anchors et0)(0 := [0xAA, 0xAA])\<rparr>)
       = active_anchors et_pending
   \<and> anchor_cache (et0\<lparr>next_anchors := (next_anchors et0)(0 := [0xAA, 0xAA])\<rparr>)
       = hip_ll_del (anchor_cache et_pending) 0
   \<and> Suc (length (anchor_cache (et0\<lparr>next_anchors := (next_anchors et0)(0 := [0xAA, 0xAA])\<rparr>)))
       = length (anchor_cache et_pending)"
proof -
  have o: "Reply = (if direction (get_tuple conn0 Original) = ORIGINAL_DIR then Reply else Original)"
    by (simp add: conn0_def get_tuple_def)
  have t: "find_esp_tuple (esp_tuples (get_tuple conn0 Reply)) (old_spi esp_info0) = Some 0"
    by (simp add: find_esp_tuple_def find_first_def get_tuple_def tracker_fixture_defs et0_def)
  have e: "et_pending = esp_tuples (get_tuple conn0 Reply) ! 0"
    by (simp add: get_tuple_def conn0_def)
  have c: "find_first (\<lambda>item. ai_seq item = peer_update_id ack0) (anchor_cache et_pending) = Some 0"
    by (simp add: find_first_def tracker_fixture_defs)
  have i: "item0 = anchor_cache et_pending ! 0"
    by (simp add: et_pending_def)
  have m: "esp_prot_conntrack_resolve_transform g0 (esp_prot_tfm et_pending)
             = Some \<lparr>hash_length = 2, is_used = 1\<rparr>"
    by (simp add: esp_prot_conntrack_resolve_transform_def et_pending_def et0_def g0_def tfm_defs)
  have h: "num_hchains et_pending = 1" "ai_active_anchors item0 0 = Some [1, 1]"
    "ai_next_anchors item0 0 = Some [0xAA, 0xAA]"
    by (simp_all add: et_pending_def et0_def item0_def)
  from h have a: "\<forall>i < nat (num_hchains et_pending). \<exists>act. ai_active_anchors item0 i = Some act
            \<and> (memcmp_eq (first_active_anchors et_pending i) act
                  (hash_length \<lparr>hash_length = 2, is_used = 1\<rparr>)
                 \<longrightarrow> ai_next_anchors item0 i \<noteq> None)"
    by simp
  from ack_installs_next_anchor [OF o t e c i m a] obtain conn' et' where
    r: "esp_prot_conntrack_update_anchor g0 conn0 Original (Some ack0) (Some esp_info0) = Some (0, conn')"
    and e': "et' = esp_tuples (get_tuple conn' Reply) ! 0"
    and p: "active_anchors et' = active_anchors et_pending"
      "anchor_cache et' = hip_ll_del (anchor_cache et_pending) 0"
      "Suc (length (anchor_cache et')) = length (anchor_cache et_pending)"
    by blast
  from r have "conn' = conn0\<lparr>reply := (reply conn0)
                    \<lparr>esp_tuples := [et0\<lparr>next_anchors := (next_anchors et0)(0 := [0xAA, 0xAA])\<rparr>]\<rparr>\<rparr>"
    by (simp add: update_anchor_fixture)
  with e' have "et' = et0\<lparr>next_anchors := (next_anchors et0)(0 := [0xAA, 0xAA])\<rparr>"
    by (simp add: get_tuple_def)
  with p t c m h show ?thesis by (simp add: update_anchor_fixture)
qed

subsection \<open>Caching the anchors of an UPDATE\<close>

lemma get_set_tuple: "get_tuple (set_tuple conn sd t) sd = t"
  by (cases sd) (simp_all add: get_tuple_def set_tuple_def)

lemma cache_anchor_step_seq:
  "cache_anchor_step hl esp_anchors esp_roots i item = Some item' \<Longrightarrow> ai_seq item' = ai_seq item"
  by (auto simp: cache_anchor_step_def Let_def split: ptr.splits if_splits)

lemma cache_anchor_step_total:
  "esp_anchors i = Ptr a \<Longrightarrow> esp_roots i \<noteq> Uninitialised \<Longrightarrow>
   cache_anchor_step hl esp_anchors esp_roots i item \<noteq> None"
  by (auto simp: cache_anchor_step_def Let_def split: ptr.splits if_splits)

lemma cache_anchor_loop_seq:
  "cache_anchor_loop hl esp_anchors esp_roots is item = Some item' \<Longrightarrow> ai_seq item' = ai_seq item"
proof (induction "is" arbitrary: item)
  case Nil
  then show ?case by simp
next
  case (Cons i "is")
  from Cons.prems obtain item1 where
    s: "cache_anchor_step hl esp_anchors esp_roots i item = Some item1" and
    l: "cache_anchor_loop hl esp_anchors esp_roots is item1 = Some item'"
    by (auto split: option.splits)
  from Cons.IH [OF l] cache_anchor_step_seq [OF s] show ?case by simp
qed

lemma cache_anchor_loop_total:
  "\<forall>i \<in> set is. (\<exists>a. esp_anchors i = Ptr a) \<and> esp_roots i \<noteq> Uninitialised \<Longrightarrow>
   cache_anchor_loop hl esp_anchors esp_roots is item \<noteq> None"
proof (induction "is" arbitrary: item)
  case Nil
  then show ?case by simp
next
  case (Cons i "is")
  from Cons.prems obtain a where a: "esp_anchors i = Ptr a" and r: "esp_roots i \<noteq> Uninitialised"
    by auto
  from cache_anchor_step_total [of esp_anchors i a esp_roots hl item, OF a r] obtain item1 where
    s: "cache_anchor_step hl esp_anchors esp_roots i item = Some item1" by blast
  from Cons.prems have "\<forall>i \<in> set is. (\<exists>a. esp_anchors i = Ptr a) \<and> esp_roots i \<noteq> Uninitialised"
    by simp
  from Cons.IH [OF this] s show ?case by simp
qed

lemma cache_anchor_prepends:
  assumes first: "esp_anchors 0 = Ptr a0"
    and tfm: "esp_prot_conntrack_resolve_transform g (pa_transform a0) = Some conntrack_tfm"
    and found: "esp_prot_conntrack_find_esp_tuple t (pa_anchors a0) (hash_length conntrack_tfm) = Some k"
    and mem: "\<not> fw_out_of_memory g"
    and arrays: "\<forall>i < nat (num_hchains (esp_tuples t ! k)).
                   (\<exists>a. esp_anchors i = Ptr a) \<and> esp_roots i \<noteq> Uninitialised"
  shows "\<exists>item. ai_seq item = seq_update_id
         \<and> esp_prot_conntrack_cache_anchor g t seq_update_id esp_anchors esp_roots
             = Some (0, t\<lparr>esp_tuples := (esp_tuples t)
                          [k := (esp_tuples t ! k)
                                  \<lparr>anchor_cache := item # anchor_cache (esp_tuples t ! k)\<rparr>]\<rparr>)"
proof -
  define hl where "hl = hash_length conntrack_tfm"
  define et where "et = esp_tuples t ! k"
  define item0 where "item0 = \<lparr>ai_seq = seq_update_id, ai_transform = pa_transform a0,
                   ai_hash_item_length = pa_hash_item_length a0,
                   ai_active_anchors = (\<lambda>_. None), ai_next_anchors = (\<lambda>_. None),
                   ai_root_length = 0, ai_roots = (\<lambda>_. None)\<rparr>"
  from arrays have "\<forall>i \<in> set [0..<nat (num_hchains et)].
      (\<exists>a. esp_anchors i = Ptr a) \<and> esp_roots i \<noteq> Uninitialised"
    by (simp add: et_def)
  from cache_anchor_loop_total [of "[0..<nat (num_hchains et)]" esp_anchors esp_roots hl item0,
      OF this]
  obtain item where
    l: "cache_anchor_loop hl esp_anchors esp_roots [0..<nat (num_hchains et)] item0 = Some item"
    by blast
  from cache_anchor_loop_seq [OF l] have sq: "ai_seq item = seq_update_id"
    by (simp add: item0_def)
  have r: "esp_prot_conntrack_cache_anchor g t seq_update_id esp_anchors esp_roots
         = Some (0, t\<lparr>esp_tuples :=
                       (esp_tuples t)[k := et\<lparr>anchor_cache := item # anchor_cache et\<rparr>]\<rparr>)"
    using first tfm found mem l
    by (simp add: esp_prot_conntrack_cache_anchor_def Let_def hl_def et_def item0_def
        hip_ll_add_first_def)
  with sq show ?thesis unfolding et_def by blast
qed

lemma find_esp_tuple_lupdate_seq:
  "esp_prot_conntrack_find_esp_tuple (t\<lparr>lupdate_seq := sq\<rparr>) a hl
     = esp_prot_conntrack_find_esp_tuple t a hl"
  by (simp add: esp_prot_conntrack_find_esp_tuple_def)

lemma param_array_Ptr:
  "int i < n \<Longrightarrow> params i \<noteq> None \<Longrightarrow> \<exists>p. param_array n params i = Ptr p"
  by (auto simp: param_array_def)

lemma param_array_init:
  "int i < n \<Longrightarrow> param_array n params i \<noteq> Uninitialised"
  by (auto simp: param_array_def split: option.splits)

lemmas update_eval = esp_prot_conntrack_update_def esp_prot_conntrack_lupdate_def
  esp_prot_conntrack_cache_anchor_def esp_prot_conntrack_verify_branch_def param_array_def
  esp_prot_conntrack_find_esp_tuple_def find_first_def esp_prot_conntrack_resolve_transform_def
  cache_anchor_step_def verify_branch_step_def memcmp_eq_def hip_ll_add_first_def
  get_tuple_def set_tuple_def Let_def tfm_defs

lemma replicate_two: "replicate 2 x = [x, x]"
  by (simp add: numeral_2_eq_2)

text \<open>Claim C7, as the code has it. Neither \<open>esp_prot_conntrack_update\<close> nor
  \<open>esp_prot_conntrack_lupdate\<close> nor \<open>esp_prot_conntrack_cache_anchor\<close> looks at the items
  already cached. Take a message with a SEQ whose first ANCHOR parameter finds its ESP tuple,
  with an ANCHOR parameter for each of the chains of that tuple (at least one and at most
  \<open>num_parallel_hchains\<close>), and memory left. Handled as a first UPDATE (no ACK, no ESP_INFO, a ROOT parameter
  present), it is accepted and a new item with its update identifier is put at the head of the
  cache of that ESP tuple, in front of all the items that were there, and nothing else of the
  direction changes. Handled as a light UPDATE, it is refused when its identifier is smaller
  than the last one recorded for the direction, and otherwise the identifier is recorded; it
  is then refused when its branches do not verify, and when they verify it is accepted and
  cached in the same way.\<close>

theorem first_update_is_cached_again:
  assumes prot: "hip_esp_protection g \<noteq> 0"
    and seq: "u_seq m = Some sq"
    and first: "u_anchors m 0 = Some a0"
    and tfm: "esp_prot_conntrack_resolve_transform g (pa_transform a0) = Some conntrack_tfm"
    and t: "t = get_tuple conn sd"
    and found: "esp_prot_conntrack_find_esp_tuple t (pa_anchors a0) (hash_length conntrack_tfm) = Some k"
    and mem: "\<not> fw_out_of_memory g"
    and chains: "0 < num_hchains (esp_tuples t ! k)"
                "num_hchains (esp_tuples t ! k) \<le> num_parallel_hchains g"
    and anchors: "\<forall>i < nat (num_hchains (esp_tuples t ! k)). u_anchors m i \<noteq> None"
  shows "(u_ack m = None \<and> u_esp_info m = None \<and> u_roots m 0 \<noteq> None \<longrightarrow>
           (\<exists>item conn'. esp_prot_conntrack_update g conn sd m = Some (0, conn')
              \<and> ai_seq item = sq
              \<and> get_tuple conn' sd
                  = t\<lparr>esp_tuples := (esp_tuples t)
                        [k := (esp_tuples t ! k)
                                \<lparr>anchor_cache := item # anchor_cache (esp_tuples t ! k)\<rparr>]\<rparr>))
       \<and> (lupdate_seq t \<le> sq
            \<and> esp_prot_conntrack_verify_branch g (t\<lparr>lupdate_seq := sq\<rparr>)
                 (param_array (num_parallel_hchains g) (u_anchors m))
                 (param_array (num_parallel_hchains g) (u_branches m))
                 (param_array (num_parallel_hchains g) (u_secrets m)) = Some 0 \<longrightarrow>
           (\<exists>item conn'. esp_prot_conntrack_lupdate g conn sd m = Some (0, conn')
              \<and> ai_seq item = sq
              \<and> get_tuple conn' sd
                  = t\<lparr>lupdate_seq := sq,
                      esp_tuples := (esp_tuples t)
                        [k := (esp_tuples t ! k)
                                \<lparr>anchor_cache := item # anchor_cache (esp_tuples t ! k)\<rparr>]\<rparr>))
       \<and> (lupdate_seq t \<le> sq
            \<and> esp_prot_conntrack_verify_branch g (t\<lparr>lupdate_seq := sq\<rparr>)
                 (param_array (num_parallel_hchains g) (u_anchors m))
                 (param_array (num_parallel_hchains g) (u_branches m))
                 (param_array (num_parallel_hchains g) (u_secrets m)) = Some (- 1) \<longrightarrow>
           esp_prot_conntrack_lupdate g conn sd m
             = Some (- 1, set_tuple conn sd (t\<lparr>lupdate_seq := sq\<rparr>)))
       \<and> (sq < lupdate_seq t \<longrightarrow> esp_prot_conntrack_lupdate g conn sd m = Some (- 1, conn))"
proof -
  define n where "n = nat (num_hchains (esp_tuples t ! k))"
  define npar where "npar = num_parallel_hchains g"
  have lt: "int i < npar" if "i < n" for i
    using that chains by (simp add: n_def npar_def)
  have z: "(0 :: int) < npar" using chains by (simp add: npar_def)
  have a0: "param_array npar (u_anchors m) 0 = Ptr a0"
    using z first by (simp add: param_array_def)
  have an: "\<exists>a. param_array npar (u_anchors m) i = Ptr a" if "i < n" for i
  proof -
    from anchors that have "u_anchors m i \<noteq> None" by (simp add: n_def)
    from param_array_Ptr [of i npar "u_anchors m", OF lt [OF that] this] show ?thesis .
  qed
  have upd: "\<exists>item conn'. esp_prot_conntrack_update g conn sd m = Some (0, conn')
              \<and> ai_seq item = sq
              \<and> get_tuple conn' sd
                  = t\<lparr>esp_tuples := (esp_tuples t)
                        [k := (esp_tuples t ! k)
                                \<lparr>anchor_cache := item # anchor_cache (esp_tuples t ! k)\<rparr>]\<rparr>"
    if c: "u_ack m = None" "u_esp_info m = None" "u_roots m 0 \<noteq> None"
  proof -
    have "\<forall>i < nat (num_hchains (esp_tuples t ! k)).
            (\<exists>a. param_array npar (u_anchors m) i = Ptr a)
            \<and> param_array npar (u_roots m) i \<noteq> Uninitialised"
      using an lt param_array_init unfolding n_def by blast
    from cache_anchor_prepends [OF a0 tfm found mem this, of sq] obtain item where
      i: "ai_seq item = sq" and
      r: "esp_prot_conntrack_cache_anchor g t sq (param_array npar (u_anchors m))
            (param_array npar (u_roots m))
          = Some (0, t\<lparr>esp_tuples := (esp_tuples t)
                        [k := (esp_tuples t ! k)
                                \<lparr>anchor_cache := item # anchor_cache (esp_tuples t ! k)\<rparr>]\<rparr>)"
      by blast
    have "esp_prot_conntrack_update g conn sd m
            = Some (0, set_tuple conn sd (t\<lparr>esp_tuples := (esp_tuples t)
                        [k := (esp_tuples t ! k)
                                \<lparr>anchor_cache := item # anchor_cache (esp_tuples t ! k)\<rparr>]\<rparr>))"
      using prot seq first c
      by (simp add: esp_prot_conntrack_update_def Let_def npar_def [symmetric] t [symmetric] r)
    with i show ?thesis by (auto simp: get_set_tuple)
  qed
  have lupd: "\<exists>item conn'. esp_prot_conntrack_lupdate g conn sd m = Some (0, conn')
              \<and> ai_seq item = sq
              \<and> get_tuple conn' sd
                  = t\<lparr>lupdate_seq := sq,
                      esp_tuples := (esp_tuples t)
                        [k := (esp_tuples t ! k)
                                \<lparr>anchor_cache := item # anchor_cache (esp_tuples t ! k)\<rparr>]\<rparr>"
    if c: "lupdate_seq t \<le> sq"
      "esp_prot_conntrack_verify_branch g (t\<lparr>lupdate_seq := sq\<rparr>)
                 (param_array npar (u_anchors m))
                 (param_array npar (u_branches m))
                 (param_array npar (u_secrets m)) = Some 0"
  proof -
    define roots where "roots = (\<lambda>i. if u_roots m 0 \<noteq> None \<and> int i < npar
                                    then (case u_roots m i of None \<Rightarrow> Null | Some r \<Rightarrow> Ptr r)
                                    else Null)"
    define t1 where "t1 = t\<lparr>lupdate_seq := sq\<rparr>"
    have ri: "roots i \<noteq> Uninitialised" for i
      by (simp add: roots_def split: option.splits)
    have f1: "esp_prot_conntrack_find_esp_tuple t1 (pa_anchors a0) (hash_length conntrack_tfm) = Some k"
      using found by (simp add: t1_def find_esp_tuple_lupdate_seq)
    have e1: "esp_tuples t1 = esp_tuples t" by (simp add: t1_def)
    have "\<forall>i < nat (num_hchains (esp_tuples t1 ! k)).
            (\<exists>a. param_array npar (u_anchors m) i = Ptr a) \<and> roots i \<noteq> Uninitialised"
      using an ri unfolding n_def e1 by blast
    from cache_anchor_prepends [OF a0 tfm f1 mem this, of sq] obtain item where
      i: "ai_seq item = sq" and
      r: "esp_prot_conntrack_cache_anchor g t1 sq (param_array npar (u_anchors m)) roots
          = Some (0, t1\<lparr>esp_tuples := (esp_tuples t1)
                        [k := (esp_tuples t1 ! k)
                                \<lparr>anchor_cache := item # anchor_cache (esp_tuples t1 ! k)\<rparr>]\<rparr>)"
      by blast
    have nl: "\<not> sq < lupdate_seq t" using c(1) by simp
    have "esp_prot_conntrack_lupdate g conn sd m
            = Some (0, set_tuple conn sd (t1\<lparr>esp_tuples := (esp_tuples t1)
                        [k := (esp_tuples t1 ! k)
                                \<lparr>anchor_cache := item # anchor_cache (esp_tuples t1 ! k)\<rparr>]\<rparr>))"
      using prot seq nl c(2)
      by (simp add: esp_prot_conntrack_lupdate_def Let_def npar_def [symmetric] t [symmetric]
          roots_def [symmetric] t1_def [symmetric] r del: not_None_eq)
    with i show ?thesis by (auto simp: get_set_tuple t1_def)
  qed
  have old: "esp_prot_conntrack_lupdate g conn sd m = Some (- 1, conn)" if "sq < lupdate_seq t"
    using prot seq that by (simp add: esp_prot_conntrack_lupdate_def Let_def t [symmetric])
  have bad: "esp_prot_conntrack_lupdate g conn sd m
             = Some (- 1, set_tuple conn sd (t\<lparr>lupdate_seq := sq\<rparr>))"
    if c: "lupdate_seq t \<le> sq"
      "esp_prot_conntrack_verify_branch g (t\<lparr>lupdate_seq := sq\<rparr>)
                 (param_array npar (u_anchors m))
                 (param_array npar (u_branches m))
                 (param_array npar (u_secrets m)) = Some (- 1)"
  proof -
    have nl: "\<not> sq < lupdate_seq t" using c(1) by simp
    show ?thesis
      using prot seq nl c(2)
      by (simp add: esp_prot_conntrack_lupdate_def Let_def npar_def [symmetric] t [symmetric])
  qed
  from upd lupd bad old show ?thesis unfolding npar_def by blast
qed

text \<open>A light UPDATE, and a first UPDATE, with the identifier of an item that is already
  cached: both are accepted and the cache holds two items for the same update afterwards.\<close>

theorem duplicate_update_cached_twice_counterexample:
  "anchor_cache (esp_tuples (reply conn0) ! 0) = [item0]
   \<and> lupdate_seq (reply conn0) = ai_seq item0
   \<and> u_seq update0 = Some (ai_seq item0)
   \<and> esp_prot_conntrack_lupdate g0 conn0 Reply update0
       = Some (0, conn0\<lparr>reply := (reply conn0)
                    \<lparr>esp_tuples := [et0\<lparr>anchor_cache := [item0, item0]\<rparr>]\<rparr>\<rparr>)
   \<and> u_seq update_root0 = Some (ai_seq item0)
   \<and> esp_prot_conntrack_update g0 conn0 Reply update_root0
       = Some (0, conn0\<lparr>reply := (reply conn0)
                    \<lparr>esp_tuples := [et0\<lparr>anchor_cache :=
                        [item0\<lparr>ai_roots := (\<lambda>i. None)(0 := Some [3, 3]), ai_root_length := 2\<rparr>,
                         item0]\<rparr>]\<rparr>\<rparr>)"
proof -
  have s: "anchor_cache (esp_tuples (reply conn0) ! 0) = [item0]"
    "lupdate_seq (reply conn0) = ai_seq item0" "u_seq update0 = Some (ai_seq item0)"
    "u_seq update_root0 = Some (ai_seq item0)"
    by (simp_all add: tracker_fixture_defs update_root0_def)
  have l: "esp_prot_conntrack_lupdate g0 conn0 Reply update0
       = Some (0, conn0\<lparr>reply := (reply conn0)
                    \<lparr>esp_tuples := [et0\<lparr>anchor_cache := [item0, item0]\<rparr>]\<rparr>\<rparr>)"
    by (simp add: update_eval tracker_fixture_defs g0_def et0_def replicate_two)
  have u: "esp_prot_conntrack_update g0 conn0 Reply update_root0
       = Some (0, conn0\<lparr>reply := (reply conn0)
                    \<lparr>esp_tuples := [et0\<lparr>anchor_cache :=
                        [item0\<lparr>ai_roots := (\<lambda>i. None)(0 := Some [3, 3]), ai_root_length := 2\<rparr>,
                         item0]\<rparr>]\<rparr>\<rparr>)"
    by (simp add: update_eval tracker_fixture_defs update_root0_def g0_def et0_def replicate_two)
  from s l u show ?thesis by simp
qed

text \<open>The UPDATE with the new identifier 9, as a first UPDATE and as a light UPDATE.\<close>

theorem first_update_is_cached_again_witness:
  "hip_esp_protection g0 \<noteq> 0
   \<and> u_seq update9 = Some 9
   \<and> u_ack update9 = None \<and> u_esp_info update9 = None
   \<and> u_anchors update9 0
       = Some \<lparr>pa_transform = ESP_PROT_TFM_PLAIN, pa_hash_item_length = 16,
               pa_anchors = [1, 1, 0xAA, 0xAA]\<rparr>
   \<and> u_roots update9 0 = Some \<lparr>pr_root_length = 2, pr_root = [3, 3]\<rparr>
   \<and> esp_prot_conntrack_find_esp_tuple (reply conn0) [1, 1, 0xAA, 0xAA] 2 = Some 0
   \<and> num_hchains (esp_tuples (reply conn0) ! 0) = 1 \<and> num_parallel_hchains g0 = 1
   \<and> lupdate_seq (reply conn0) = 7
   \<and> anchor_cache (esp_tuples (reply conn0) ! 0) = [item0]
   \<and> esp_prot_conntrack_update g0 conn0 Reply update9
       = Some (0, conn0\<lparr>reply := (reply conn0)
                    \<lparr>esp_tuples := [et0\<lparr>anchor_cache :=
                        [item0\<lparr>ai_seq := 9, ai_roots := (\<lambda>i. None)(0 := Some [3, 3]),
                               ai_root_length := 2\<rparr>,
                         item0]\<rparr>]\<rparr>\<rparr>)
   \<and> esp_prot_conntrack_lupdate g0 conn0 Reply update9
       = Some (0, conn0\<lparr>reply := (reply conn0)
                    \<lparr>lupdate_seq := 9,
                     esp_tuples := [et0\<lparr>anchor_cache :=
                        [item0\<lparr>ai_seq := 9, ai_roots := (\<lambda>i. None)(0 := Some [3, 3]),
                               ai_root_length := 2\<rparr>,
                         item0]\<rparr>]\<rparr>\<rparr>)"
proof -
  have p: "hip_esp_protection g0 \<noteq> 0" "\<not> fw_out_of_memory g0" "num_parallel_hchains g0 = 1"
    by (simp_all add: g0_def)
  have m: "u_seq update9 = Some 9" "u_ack update9 = None" "u_esp_info update9 = None"
    "u_anchors update9 0
       = Some \<lparr>pa_transform = ESP_PROT_TFM_PLAIN, pa_hash_item_length = 16,
               pa_anchors = [1, 1, 0xAA, 0xAA]\<rparr>"
    "u_roots update9 0 = Some \<lparr>pr_root_length = 2, pr_root = [3, 3]\<rparr>"
    by (simp_all add: update9_def update0_def)
  have tf: "esp_prot_conntrack_resolve_transform g0
             (pa_transform \<lparr>pa_transform = ESP_PROT_TFM_PLAIN, pa_hash_item_length = 16,
                            pa_anchors = [1, 1, 0xAA, 0xAA]\<rparr>)
           = Some \<lparr>hash_length = 2, is_used = 1\<rparr>"
    by (simp add: esp_prot_conntrack_resolve_transform_def g0_def tfm_defs)
  have t: "reply conn0 = get_tuple conn0 Reply" by (simp add: get_tuple_def)
  have f: "esp_prot_conntrack_find_esp_tuple (reply conn0)
             (pa_anchors \<lparr>pa_transform = ESP_PROT_TFM_PLAIN, pa_hash_item_length = 16,
                           pa_anchors = [1, 1, 0xAA, 0xAA]\<rparr>)
             (hash_length \<lparr>hash_length = 2, is_used = 1\<rparr>) = Some 0"
    by (simp add: esp_prot_conntrack_find_esp_tuple_def find_first_def memcmp_eq_def
        tracker_fixture_defs et0_def)
  have n: "num_hchains (esp_tuples (reply conn0) ! 0) = 1" "lupdate_seq (reply conn0) = 7"
    "anchor_cache (esp_tuples (reply conn0) ! 0) = [item0]"
    by (simp_all add: tracker_fixture_defs et0_def)
  have c: "0 < num_hchains (esp_tuples (reply conn0) ! 0)"
    "num_hchains (esp_tuples (reply conn0) ! 0) \<le> num_parallel_hchains g0"
    by (simp_all add: n p)
  from m(4) n(1) have a: "\<forall>i < nat (num_hchains (esp_tuples (reply conn0) ! 0)). u_anchors update9 i \<noteq> None"
    by simp
  have v: "esp_prot_conntrack_verify_branch g0 ((reply conn0)\<lparr>lupdate_seq := 9\<rparr>)
             (param_array (num_parallel_hchains g0) (u_anchors update9))
             (param_array (num_parallel_hchains g0) (u_branches update9))
             (param_array (num_parallel_hchains g0) (u_secrets update9)) = Some 0"
    by (simp add: update_eval tracker_fixture_defs update9_def g0_def et0_def)
  have u: "esp_prot_conntrack_update g0 conn0 Reply update9
       = Some (0, conn0\<lparr>reply := (reply conn0)
                    \<lparr>esp_tuples := [et0\<lparr>anchor_cache :=
                        [item0\<lparr>ai_seq := 9, ai_roots := (\<lambda>i. None)(0 := Some [3, 3]),
                               ai_root_length := 2\<rparr>,
                         item0]\<rparr>]\<rparr>\<rparr>)"
    by (simp add: update_eval tracker_fixture_defs update9_def g0_def et0_def replicate_two)
  have l: "esp_prot_conntrack_lupdate g0 conn0 Reply update9
       = Some (0, conn0\<lparr>reply := (reply conn0)
                    \<lparr>lupdate_seq := 9,
                     esp_tuples := [et0\<lparr>anchor_cache :=
                        [item0\<lparr>ai_seq := 9, ai_roots := (\<lambda>i. None)(0 := Some [3, 3]),
                               ai_root_length := 2\<rparr>,
                         item0]\<rparr>]\<rparr>\<rparr>)"
    by (simp add: update_eval tracker_fixture_defs update9_def g0_def et0_def replicate_two)
  note th = first_update_is_cached_again [OF p(1) m(1) m(4) tf refl f [unfolded t] p(2) c [unfolded t] a [unfolded t]]
  have r0: "u_roots update9 0 \<noteq> None" by (simp add: m)
  have sq: "lupdate_seq (get_tuple conn0 Reply) \<le> 9" by (simp add: t [symmetric] n)
  have e1: "\<exists>(item :: esp_anchor_item) conn'.
                esp_prot_conntrack_update g0 conn0 Reply update9 = Some (0, conn')
                \<and> ai_seq item = 9"
    using th [THEN conjunct1] m(2,3) r0 by fastforce
  have e2: "\<exists>(item :: esp_anchor_item) conn'.
                esp_prot_conntrack_lupdate g0 conn0 Reply update9 = Some (0, conn')
                \<and> ai_seq item = 9"
    using th [THEN conjunct2, THEN conjunct1] sq v [unfolded t] by fastforce
  from e1 e2
  show ?thesis using p m f n u l by simp
qed

end
